theory Spec2Isabelle
  imports Main
begin

section \<open>JavaScript values and errors\<close>

text \<open>
  The values the tool executor handles come out of \<^verbatim>\<open>JSON.parse\<close> (the tool-call
  arguments) and out of the HTTP client (the response bodies): JSON values. A value of
  type \<open>jsval option\<close> is a JavaScript expression that may be \<^verbatim>\<open>undefined\<close>
  (\<open>None\<close>), as the read of an absent property is. An object is the list of its own
  properties.
\<close>

datatype jsval =
    JNull
  | JBool bool
  | JNum int
  | JStr string
  | JArr "jsval list"
  | JObj "(string \<times> jsval) list"

text \<open>An exception, by its constructor; \<open>message_of\<close> is its \<^verbatim>\<open>.message\<close>.\<close>

datatype js_error =
    Error string
  | TypeError string
  | SyntaxError string
  | AxiosError string

fun message_of :: "js_error \<Rightarrow> string" where
  "message_of (Error m) = m"
| "message_of (TypeError m) = m"
| "message_of (SyntaxError m) = m"
| "message_of (AxiosError m) = m"

text \<open>
  The TypeError of reading property \<open>k\<close> of \<^verbatim>\<open>undefined\<close> or \<^verbatim>\<open>null\<close>,
  with the message Node prints.
\<close>

definition cannot_read :: "string \<Rightarrow> string \<Rightarrow> js_error" where
  "cannot_read what k =
     TypeError (''Cannot read properties of '' @ what @ '' (reading '' @ [CHR 0x27] @ k @ [CHR 0x27] @ '')'')"

text \<open>
  The property read \<^verbatim>\<open>v.k\<close>, for the property names this program reads
  (\<^verbatim>\<open>applicationId\<close>, \<^verbatim>\<open>userId\<close>, \<^verbatim>\<open>entitlementIds\<close>, \<^verbatim>\<open>reasoning\<close>,
  \<^verbatim>\<open>requestId\<close>, \<^verbatim>\<open>message\<close>, \<^verbatim>\<open>data\<close>, \<^verbatim>\<open>id\<close>, \<^verbatim>\<open>name\<close>,
  \<^verbatim>\<open>description\<close>, \<^verbatim>\<open>status\<close>): none of them is a property of a string, a
  number, a boolean or an array, so the read of one there is \<^verbatim>\<open>undefined\<close>; on
  \<^verbatim>\<open>undefined\<close> and \<^verbatim>\<open>null\<close> the read throws.
\<close>

fun getprop :: "jsval option \<Rightarrow> string \<Rightarrow> js_error + jsval option" where
  "getprop None k = Inl (cannot_read ''undefined'' k)"
| "getprop (Some JNull) k = Inl (cannot_read ''null'' k)"
| "getprop (Some (JObj kvs)) k = Inr (map_of kvs k)"
| "getprop (Some v) k = Inr None"

text \<open>
  The string conversion of a template literal \<^verbatim>\<open>`... ${v} ...`\<close>. The program
  converts values to write them to the console (and, after that, into the filter and
  the URL of a request, which are kept here by the value they are made from), so what
  is kept is whether the conversion returns: an object converts through the
  \<^verbatim>\<open>toString\<close> it inherits,
  unless it has an own property of that name, which (a JSON value, not a function)
  leaves no way to a primitive and makes the conversion throw; an array converts its
  elements, \<^verbatim>\<open>null\<close> as the empty string; everything else, \<^verbatim>\<open>undefined\<close>
  included, has a string.
\<close>

fun converts :: "jsval \<Rightarrow> bool" where
  "converts (JObj kvs) = (map_of kvs ''toString'' = None)"
| "converts (JArr vs) = list_all converts vs"
| "converts v = True"

definition not_primitive :: js_error where
  "not_primitive = TypeError ''Cannot convert object to primitive value''"

definition interpolate :: "jsval option \<Rightarrow> js_error option" where
  "interpolate v =
     (case v of
        None \<Rightarrow> None
      | Some x \<Rightarrow> if converts x then None else Some not_primitive)"

section \<open>The tool registry\<close>

text \<open>
  \<^verbatim>\<open>MCPServer.tools\<close>, as far as the executor and the claims read it: each tool's
  name and the \<^verbatim>\<open>required\<close> list of its parameter schema.
\<close>

record tool_definition =
  td_name :: string
  td_required :: "string list"

definition tools :: "tool_definition list" where
  "tools =
     [\<lparr>td_name = ''list_entitlement_bundles'', td_required = [''applicationId'']\<rparr>,
      \<lparr>td_name = ''create_grant'', td_required = [''userId'', ''entitlementIds'', ''reasoning'']\<rparr>,
      \<lparr>td_name = ''add_request_message'', td_required = [''requestId'', ''message'']\<rparr>]"

definition tool_names :: "string list" where
  "tool_names = map td_name tools"

section \<open>Tool results\<close>

text \<open>
  The bundle record \<^verbatim>\<open>{id, name, description, status}\<close> built by
  \<^verbatim>\<open>listEntitlementBundles\<close>, and the grant record
  \<^verbatim>\<open>{entitlementBundleId, grantId, status}\<close> built by \<^verbatim>\<open>createGrant\<close>.
\<close>

record entitlement_bundle =
  bundle_id :: "jsval option"
  bundle_name :: "jsval option"
  bundle_description :: "jsval option"
  bundle_status :: "jsval option"

record grant =
  entitlementBundleId :: jsval
  grantId :: "jsval option"
  status :: string

datatype payload =
    Bundles "entitlement_bundle list"
  | Grants "grant list"
  | Body jsval

text \<open>
  The objects the tools return, one constructor per object literal of the source:
  \<^item> \<open>Ok_data p\<close> is \<^verbatim>\<open>{ success: true, data: p }\<close>;
  \<^item> \<open>Ok_grants gs r\<close> is \<^verbatim>\<open>{ success: true, data: grantResults, reasoning }\<close>;
  \<^item> \<open>Ok_echo i m\<close> is \<^verbatim>\<open>{ success: true, requestId, message }\<close>;
  \<^item> \<open>Failed msg\<close> is \<^verbatim>\<open>{ success: false, error: msg }\<close>.
\<close>

datatype tool_result =
    Ok_data payload
  | Ok_grants "grant list" "jsval option"
  | Ok_echo "jsval option" "jsval option"
  | Failed string

fun success :: "tool_result \<Rightarrow> bool" where
  "success (Failed msg) = False"
| "success r = True"

fun data :: "tool_result \<Rightarrow> payload option" where
  "data (Ok_data p) = Some p"
| "data (Ok_grants gs r) = Some (Grants gs)"
| "data r = None"

fun error :: "tool_result \<Rightarrow> string option" where
  "error (Failed msg) = Some msg"
| "error r = None"

text \<open>The own property names of the returned object, in the literal's order.\<close>

fun keys :: "tool_result \<Rightarrow> string list" where
  "keys (Ok_data p) = [''success'', ''data'']"
| "keys (Ok_grants gs r) = [''success'', ''data'', ''reasoning'']"
| "keys (Ok_echo i m) = [''success'', ''requestId'', ''message'']"
| "keys (Failed msg) = [''success'', ''error'']"

section \<open>The environment: configuration, backend, clock and random source\<close>

text \<open>
  The requests the executor sends with axios. The base URL and the authorization token
  are fixed configuration and are left out; what varies is kept: the application id
  interpolated into the \<^verbatim>\<open>filter\<close> parameter of the GET, the body of the grant
  POST, and the request id (in the URL) and message (in the body) of the message POST.
\<close>

record grantData =
  grantType :: string
  gd_entitlementBundleId :: jsval
  actor :: string
  targetPrincipal_externalId :: "jsval option"
  targetPrincipal_type :: string

datatype http_request =
    Get_entitlement_bundles "jsval option"
  | Post_grants grantData
  | Post_messages "jsval option" "jsval option"

text \<open>
  The backend answers a request with a response body (\<^verbatim>\<open>response.data\<close>) or the
  client throws (HTTP error status, network error). The answer may depend on all that
  was sent before, so the backend is a function of the history of requests, the last
  one being the request to answer. \<open>date_now\<close> and \<open>math_random\<close> give, for the
  \<open>n\<close>-th mock grant of the run, the text of \<^verbatim>\<open>Date.now()\<close> and of
  \<^verbatim>\<open>Math.random().toString(36).substr(2, 9)\<close>.
\<close>

record env =
  mockMode :: bool
  backend :: "http_request list \<Rightarrow> js_error + jsval"
  date_now :: "nat \<Rightarrow> string"
  math_random :: "nat \<Rightarrow> string"

record world =
  sent :: "http_request list"
  ticks :: nat

definition axios :: "env \<Rightarrow> world \<Rightarrow> http_request \<Rightarrow> (js_error + jsval) \<times> world" where
  "axios E w req = (let h = sent w @ [req] in (backend E h, w\<lparr>sent := h\<rparr>))"

section \<open>MCPServer: the tool executor\<close>

subsection \<open>listEntitlementBundles\<close>

definition mockBundles :: "entitlement_bundle list" where
  "mockBundles =
     [\<lparr>bundle_id = Some (JStr ''enbmtw1byu10MX9wZ696''),
       bundle_name = Some (JStr ''Viewer - viewer''),
       bundle_description =
         Some (JStr (''Grants read-only access to all of a project'' @ [CHR 0x27] @ ''s resources.'')),
       bundle_status = Some (JStr ''ACTIVE'')\<rparr>,
      \<lparr>bundle_id = Some (JStr ''enbmtw1buZQG1bZZZ696''),
       bundle_name = Some (JStr ''Storage Object Viewer - storage.objectViewer''),
       bundle_description = Some (JStr ''Grants read-only access to Cloud Storage objects.''),
       bundle_status = Some (JStr ''ACTIVE'')\<rparr>,
      \<lparr>bundle_id = Some (JStr ''enbmtv1gportvxifd696''),
       bundle_name = Some (JStr ''Storage Object Admin - storage.objectAdmin''),
       bundle_description = Some (JStr ''Grants full control over Cloud Storage objects.''),
       bundle_status = Some (JStr ''ACTIVE'')\<rparr>,
      \<lparr>bundle_id = Some (JStr ''enbmtv1gl03rpGl0G696''),
       bundle_name = Some (JStr ''BigQuery Data Editor - bigquery.dataEditor''),
       bundle_description =
         Some (JStr ''Grants permissions to edit data and metadata in BigQuery tables.''),
       bundle_status = Some (JStr ''ACTIVE'')\<rparr>]"

text \<open>
  The callback of \<^verbatim>\<open>response.data.data.map\<close>: four property reads of one element;
  the first throws on a \<^verbatim>\<open>null\<close> element.
\<close>

definition bundle_of :: "jsval \<Rightarrow> js_error + entitlement_bundle" where
  "bundle_of b =
     (case getprop (Some b) ''id'' of
        Inl e \<Rightarrow> Inl e
      | Inr i \<Rightarrow>
          (case getprop (Some b) ''name'' of
             Inl e \<Rightarrow> Inl e
           | Inr n \<Rightarrow>
               (case getprop (Some b) ''description'' of
                  Inl e \<Rightarrow> Inl e
                | Inr d \<Rightarrow>
                    (case getprop (Some b) ''status'' of
                       Inl e \<Rightarrow> Inl e
                     | Inr s \<Rightarrow>
                         Inr \<lparr>bundle_id = i, bundle_name = n,
                              bundle_description = d, bundle_status = s\<rparr>))))"

fun map_bundles :: "jsval list \<Rightarrow> js_error + entitlement_bundle list" where
  "map_bundles [] = Inr []"
| "map_bundles (b # bs) =
     (case bundle_of b of
        Inl e \<Rightarrow> Inl e
      | Inr x \<Rightarrow> (case map_bundles bs of Inl e \<Rightarrow> Inl e | Inr xs \<Rightarrow> Inr (x # xs)))"

text \<open>
  \<^verbatim>\<open>response.data.data.map(...)\<close> on the response body: the body's \<^verbatim>\<open>data\<close>
  property must be an array.
\<close>

definition bundles_of_body :: "jsval \<Rightarrow> js_error + entitlement_bundle list" where
  "bundles_of_body body =
     (case getprop (Some body) ''data'' of
        Inl e \<Rightarrow> Inl e
      | Inr None \<Rightarrow> Inl (cannot_read ''undefined'' ''map'')
      | Inr (Some JNull) \<Rightarrow> Inl (cannot_read ''null'' ''map'')
      | Inr (Some (JArr bs)) \<Rightarrow> map_bundles bs
      | Inr (Some v) \<Rightarrow> Inl (TypeError ''response.data.data.map is not a function''))"

text \<open>
  The first statement of either path writes \<^verbatim>\<open>applicationId\<close> to the console. The
  mock path stands outside any \<^verbatim>\<open>try\<close>, so what it throws is thrown to the caller
  (\<open>Inl\<close>); the live path stands inside one and turns every error into a failed
  result.
\<close>

definition listEntitlementBundles :: "env \<Rightarrow> world \<Rightarrow> jsval option
    \<Rightarrow> (js_error + tool_result) \<times> world" where
  "listEntitlementBundles E w applicationId =
     (if mockMode E then
        (case interpolate applicationId of
           Some e \<Rightarrow> (Inl e, w)
         | None \<Rightarrow> (Inr (Ok_data (Bundles mockBundles)), w))
      else
        (case interpolate applicationId of
           Some e \<Rightarrow> (Inr (Failed (message_of e)), w)
         | None \<Rightarrow>
             (case axios E w (Get_entitlement_bundles applicationId) of
                (Inl e, w') \<Rightarrow> (Inr (Failed (message_of e)), w')
              | (Inr body, w') \<Rightarrow>
                  (case bundles_of_body body of
                     Inl e \<Rightarrow> (Inr (Failed (message_of e)), w')
                   | Inr bundles \<Rightarrow> (Inr (Ok_data (Bundles bundles)), w')))))"

subsection \<open>createGrant\<close>

text \<open>
  The read of \<^verbatim>\<open>entitlementIds.length\<close>: a TypeError on \<^verbatim>\<open>undefined\<close> and
  \<^verbatim>\<open>null\<close>, the number of elements of an array and of characters of a string,
  the own property of that name of an object, \<^verbatim>\<open>undefined\<close> otherwise.
\<close>

fun get_length :: "jsval option \<Rightarrow> js_error + jsval option" where
  "get_length None = Inl (cannot_read ''undefined'' ''length'')"
| "get_length (Some JNull) = Inl (cannot_read ''null'' ''length'')"
| "get_length (Some (JArr es)) = Inr (Some (JNum (int (length es))))"
| "get_length (Some (JStr s)) = Inr (Some (JNum (int (length s))))"
| "get_length (Some (JObj kvs)) = Inr (map_of kvs ''length'')"
| "get_length (Some v) = Inr None"

text \<open>
  The values \<^verbatim>\<open>for (const entitlementId of entitlementIds)\<close> iterates: the
  elements of an array, the characters of a string; nothing else is iterable.
\<close>

fun elements :: "jsval option \<Rightarrow> js_error + jsval list" where
  "elements (Some (JArr es)) = Inr es"
| "elements (Some (JStr s)) = Inr (map (\<lambda>c. JStr [c]) s)"
| "elements v = Inl (TypeError ''entitlementIds is not iterable'')"

text \<open>
  What \<^verbatim>\<open>createGrant\<close> does before the first grant, the same on both paths: the
  first log line converts \<^verbatim>\<open>userId\<close> and then \<^verbatim>\<open>entitlementIds.length\<close>, the
  second converts \<^verbatim>\<open>reasoning\<close>, and the \<^verbatim>\<open>for ... of\<close> starts to iterate.
\<close>

definition grantArguments :: "jsval option \<Rightarrow> jsval option \<Rightarrow> jsval option
    \<Rightarrow> js_error + jsval list" where
  "grantArguments userId entitlementIds reasoning =
     (case interpolate userId of
        Some e \<Rightarrow> Inl e
      | None \<Rightarrow>
          (case get_length entitlementIds of
             Inl e \<Rightarrow> Inl e
           | Inr len \<Rightarrow>
               (case interpolate len of
                  Some e \<Rightarrow> Inl e
                | None \<Rightarrow>
                    (case interpolate reasoning of
                       Some e \<Rightarrow> Inl e
                     | None \<Rightarrow> elements entitlementIds))))"

definition mockGrantId :: "env \<Rightarrow> nat \<Rightarrow> string" where
  "mockGrantId E n = ''grant-'' @ date_now E n @ ''-'' @ math_random E n"

text \<open>
  The mock loop: each round writes the element to the console, then generates an
  identifier and pushes the record. A conversion that throws ends the loop.
\<close>

fun mockGrantLoop :: "env \<Rightarrow> jsval list \<Rightarrow> grant list \<Rightarrow> world
    \<Rightarrow> (js_error + grant list) \<times> world" where
  "mockGrantLoop E [] grantResults w = (Inr grantResults, w)"
| "mockGrantLoop E (entitlementId # rest) grantResults w =
     (case interpolate (Some entitlementId) of
        Some e \<Rightarrow> (Inl e, w)
      | None \<Rightarrow>
          mockGrantLoop E rest
            (grantResults @
               [\<lparr>entitlementBundleId = entitlementId,
                 grantId = Some (JStr (mockGrantId E (ticks w))),
                 status = ''created''\<rparr>])
            (w\<lparr>ticks := Suc (ticks w)\<rparr>))"

definition mk_grantData :: "jsval option \<Rightarrow> jsval \<Rightarrow> grantData" where
  "mk_grantData userId entitlementId =
     \<lparr>grantType = ''ENTITLEMENT-BUNDLE'',
      gd_entitlementBundleId = entitlementId,
      actor = ''ACCESS_REQUEST'',
      targetPrincipal_externalId = userId,
      targetPrincipal_type = ''OKTA_USER''\<rparr>"

text \<open>
  The live loop: each round writes the element to the console, sends one POST, reads
  \<^verbatim>\<open>response.data.id\<close> (a TypeError on a \<^verbatim>\<open>null\<close> body), pushes the record and
  writes the identifier to the console. The first round in which anything throws ends
  the loop with that error: the later elements are not posted, and the records
  collected so far stay in the local \<^verbatim>\<open>grantResults\<close>, which the \<^verbatim>\<open>catch\<close>
  block does not read.
\<close>

fun grantLoop :: "env \<Rightarrow> jsval option \<Rightarrow> jsval list \<Rightarrow> grant list \<Rightarrow> world
    \<Rightarrow> (js_error + grant list) \<times> world" where
  "grantLoop E userId [] grantResults w = (Inr grantResults, w)"
| "grantLoop E userId (entitlementId # rest) grantResults w =
     (case interpolate (Some entitlementId) of
        Some e \<Rightarrow> (Inl e, w)
      | None \<Rightarrow>
          (case axios E w (Post_grants (mk_grantData userId entitlementId)) of
             (Inl e, w') \<Rightarrow> (Inl e, w')
           | (Inr body, w') \<Rightarrow>
               (case getprop (Some body) ''id'' of
                  Inl e \<Rightarrow> (Inl e, w')
                | Inr gid \<Rightarrow>
                    (let pushed = grantResults @
                           [\<lparr>entitlementBundleId = entitlementId, grantId = gid,
                             status = ''created''\<rparr>]
                     in case interpolate gid of
                          Some e \<Rightarrow> (Inl e, w')
                        | None \<Rightarrow> grantLoop E userId rest pushed w'))))"

text \<open>
  In mock mode nothing is caught, so every error is thrown to the caller (\<open>Inl\<close>);
  the live path runs inside \<^verbatim>\<open>try\<close> and turns every error into a failed result.
  The \<^verbatim>\<open>applicationId\<close> parameter is unused (the caller passes \<^verbatim>\<open>null\<close>).
\<close>

definition createGrant :: "env \<Rightarrow> world \<Rightarrow> jsval option \<Rightarrow> jsval option \<Rightarrow> jsval option
    \<Rightarrow> jsval option \<Rightarrow> (js_error + tool_result) \<times> world" where
  "createGrant E w userId applicationId entitlementIds reasoning =
     (if mockMode E then
        (case grantArguments userId entitlementIds reasoning of
           Inl e \<Rightarrow> (Inl e, w)
         | Inr es \<Rightarrow>
             (case mockGrantLoop E es [] w of
                (Inl e, w') \<Rightarrow> (Inl e, w')
              | (Inr grantResults, w') \<Rightarrow> (Inr (Ok_grants grantResults reasoning), w')))
      else
        (case grantArguments userId entitlementIds reasoning of
           Inl e \<Rightarrow> (Inr (Failed (message_of e)), w)
         | Inr es \<Rightarrow>
             (case grantLoop E userId es [] w of
                (Inl e, w') \<Rightarrow> (Inr (Failed (message_of e)), w')
              | (Inr grantResults, w') \<Rightarrow> (Inr (Ok_grants grantResults reasoning), w'))))"

subsection \<open>addRequestMessage\<close>

text \<open>
  Both paths first write \<^verbatim>\<open>requestId\<close> and \<^verbatim>\<open>message\<close> to the console: thrown
  to the caller on the mock path, a failed result with no request sent on the live one.
\<close>

definition addRequestMessage :: "env \<Rightarrow> world \<Rightarrow> jsval option \<Rightarrow> jsval option
    \<Rightarrow> (js_error + tool_result) \<times> world" where
  "addRequestMessage E w requestId message =
     (if mockMode E then
        (case interpolate requestId of
           Some e \<Rightarrow> (Inl e, w)
         | None \<Rightarrow>
             (case interpolate message of
                Some e \<Rightarrow> (Inl e, w)
              | None \<Rightarrow> (Inr (Ok_echo requestId message), w)))
      else
        (case interpolate requestId of
           Some e \<Rightarrow> (Inr (Failed (message_of e)), w)
         | None \<Rightarrow>
             (case interpolate message of
                Some e \<Rightarrow> (Inr (Failed (message_of e)), w)
              | None \<Rightarrow>
                  (case axios E w (Post_messages requestId message) of
                     (Inl e, w') \<Rightarrow> (Inr (Failed (message_of e)), w')
                   | (Inr body, w') \<Rightarrow> (Inr (Ok_data (Body body)), w')))))"

subsection \<open>executeTool\<close>

text \<open>
  The \<^verbatim>\<open>switch\<close> on the tool name. The argument reads \<^verbatim>\<open>args.applicationId\<close>
  and so on throw when \<^verbatim>\<open>args\<close> is \<^verbatim>\<open>null\<close>; the \<^verbatim>\<open>default\<close> branch throws
  without reading \<^verbatim>\<open>args\<close>. \<open>Inl\<close> is the rejection of the returned promise.
\<close>

definition executeTool :: "env \<Rightarrow> world \<Rightarrow> string \<Rightarrow> jsval \<Rightarrow> (js_error + tool_result) \<times> world" where
  "executeTool E w toolName args =
     (if toolName = ''list_entitlement_bundles'' then
        (case getprop (Some args) ''applicationId'' of
           Inl e \<Rightarrow> (Inl e, w)
         | Inr applicationId \<Rightarrow> listEntitlementBundles E w applicationId)
      else if toolName = ''create_grant'' then
        (case getprop (Some args) ''userId'' of
           Inl e \<Rightarrow> (Inl e, w)
         | Inr userId \<Rightarrow>
             (case getprop (Some args) ''entitlementIds'' of
                Inl e \<Rightarrow> (Inl e, w)
              | Inr entitlementIds \<Rightarrow>
                  (case getprop (Some args) ''reasoning'' of
                     Inl e \<Rightarrow> (Inl e, w)
                   | Inr reasoning \<Rightarrow>
                       createGrant E w userId (Some JNull) entitlementIds reasoning)))
      else if toolName = ''add_request_message'' then
        (case getprop (Some args) ''requestId'' of
           Inl e \<Rightarrow> (Inl e, w)
         | Inr requestId \<Rightarrow>
             (case getprop (Some args) ''message'' of
                Inl e \<Rightarrow> (Inl e, w)
              | Inr message \<Rightarrow> addRequestMessage E w requestId message))
      else (Inl (Error (''Unknown MCP tool: '' @ toolName)), w))"

section \<open>MCPClient: the agent loop\<close>

subsection \<open>The conversation\<close>

text \<open>
  A tool call of a model turn: \<^verbatim>\<open>toolCall.id\<close>, \<^verbatim>\<open>toolCall.function.name\<close>
  and what \<^verbatim>\<open>JSON.parse(toolCall.function.arguments)\<close> gives: the parsed value,
  or the SyntaxError it throws when the text is not JSON.
\<close>

record tool_call =
  tc_id :: string
  tc_name :: string
  tc_arguments :: "js_error + jsval"

text \<open>
  The message of a model turn. \<^verbatim>\<open>tool_calls\<close> is an optional property: \<open>None\<close>
  when it is absent (or \<^verbatim>\<open>null\<close>), \<open>Some calls\<close> when it is an array, which the
  loop condition takes as true whatever its length, an empty array included.
\<close>

record assistant_message =
  content :: "string option"
  tool_calls :: "tool_call list option"

datatype response = Response (choices: "assistant_message list")

text \<open>
  An entry of the \<^verbatim>\<open>messages\<close> array: the system message, an assistant message, or
  \<^verbatim>\<open>{ role: "tool", tool_call_id, content: JSON.stringify(result) }\<close>, kept here with
  the result itself for its content.
\<close>

datatype message =
    System string
  | Assistant assistant_message
  | Tool string tool_result

text \<open>
  What the run did, in order: a request to the model with the messages it carried, or
  the execution of a tool call with the result that was pushed for it.
\<close>

datatype event =
    Model_requested "message list"
  | Tool_executed tool_call tool_result

record loop_state =
  messages :: "message list"
  world_of :: world
  events :: "event list"

text \<open>
  How a run ends: the loop returns the last response, an exception leaves it, or the
  replies given to the model are used up while a request is pending.
\<close>

datatype outcome =
    Returned response
  | Thrown js_error
  | Awaiting_model

subsection \<open>handleToolCalls\<close>

definition pushToolResult :: "tool_call \<Rightarrow> tool_result \<Rightarrow> world \<Rightarrow> loop_state \<Rightarrow> loop_state" where
  "pushToolResult toolCall result w st =
     st\<lparr>messages := messages st @ [Tool (tc_id toolCall) result],
        world_of := w,
        events := events st @ [Tool_executed toolCall result]\<rparr>"

text \<open>
  The \<^verbatim>\<open>for\<close> loop over the tool calls of one turn. \<^verbatim>\<open>JSON.parse\<close> stands
  outside the \<^verbatim>\<open>try\<close>, so its SyntaxError leaves the loop; an error thrown by
  \<^verbatim>\<open>executeTool\<close> is caught and pushed as
  \<^verbatim>\<open>{ success: false, error: error.message }\<close>.
\<close>

fun runToolCalls :: "env \<Rightarrow> tool_call list \<Rightarrow> loop_state \<Rightarrow> js_error option \<times> loop_state" where
  "runToolCalls E [] st = (None, st)"
| "runToolCalls E (toolCall # rest) st =
     (case tc_arguments toolCall of
        Inl e \<Rightarrow> (Some e, st)
      | Inr args \<Rightarrow>
          (case executeTool E (world_of st) (tc_name toolCall) args of
             (Inr result, w') \<Rightarrow> runToolCalls E rest (pushToolResult toolCall result w' st)
           | (Inl e, w') \<Rightarrow>
               runToolCalls E rest (pushToolResult toolCall (Failed (message_of e)) w' st)))"

definition requestModel :: "loop_state \<Rightarrow> loop_state" where
  "requestModel st = st\<lparr>events := events st @ [Model_requested (messages st)]\<rparr>"

text \<open>
  The \<^verbatim>\<open>while\<close> loop. \<open>replies\<close> are the answers of the model to the requests
  the loop sends, in order: a response, or the error the call throws.
\<close>

fun agentLoop :: "env \<Rightarrow> response \<Rightarrow> (js_error + response) list \<Rightarrow> loop_state
    \<Rightarrow> outcome \<times> loop_state" where
  "agentLoop E currentResponse replies st =
     (case choices currentResponse of
        [] \<Rightarrow> (Thrown (cannot_read ''undefined'' ''message''), st)
      | m # ms \<Rightarrow>
          (case tool_calls m of
             None \<Rightarrow> (Returned currentResponse, st)
           | Some calls \<Rightarrow>
               (case runToolCalls E calls (st\<lparr>messages := messages st @ [Assistant m]\<rparr>) of
                  (Some e, st') \<Rightarrow> (Thrown e, st')
                | (None, st') \<Rightarrow>
                    (case replies of
                       [] \<Rightarrow> (Awaiting_model, requestModel st')
                     | Inl e # rest \<Rightarrow> (Thrown e, requestModel st')
                     | Inr r # rest \<Rightarrow> agentLoop E r rest (requestModel st')))))"

definition initialMessages :: "message list" where
  "initialMessages = [System ''Process this access request autonomously.'']"

definition handleToolCalls :: "env \<Rightarrow> response \<Rightarrow> (js_error + response) list \<Rightarrow> world
    \<Rightarrow> outcome \<times> loop_state" where
  "handleToolCalls E response replies w =
     agentLoop E response replies \<lparr>messages = initialMessages, world_of = w, events = []\<rparr>"

subsection \<open>processAccessRequest\<close>

text \<open>
  The fields of the mapped webhook request that \<^verbatim>\<open>processAccessRequest\<close> puts into
  the prompt, strings as the webhook sends them; a field the payload lacks is
  \<^verbatim>\<open>undefined\<close> and prints as such.
\<close>

record webhookData =
  wd_accessRequestId :: "string option"
  wd_userId :: "string option"
  wd_userEmail :: "string option"
  wd_accessLevelName :: "string option"
  wd_accessLevelDescription :: "string option"
  wd_catalogEntryId :: "string option"
  wd_justification :: "string option"

definition tpl :: "string option \<Rightarrow> string" where
  "tpl v = (case v of None \<Rightarrow> ''undefined'' | Some s \<Rightarrow> s)"

definition nl :: string where "nl = [CHR 0x0A]"

definition tab :: string where "tab = [CHR 0x09]"

definition dq :: string where "dq = [CHR 0x22]"

definition systemPrompt :: "webhookData \<Rightarrow> string" where
  "systemPrompt webhookData =
     concat [
        ''You are a SENIOR SECURITY ENGINEER evaluating access requests for Google '',
          ''Cloud Project (GCP) roles to a production environment from engineers an '',
          ''enterprise company. You must make decisions that enforce least privilege but '',
          ''also ensure business continuity.'', nl,
        nl,
        ''REQUIREMENTS:'', nl,
        ''1. Justifications within the request must contain meaningful information '',
          ''including:'', nl,
        tab, ''a. Incident/Reference number OR explicit statement this is routine/planned '',
          ''work'', nl,
        tab, ''b. Specific GCP resource types (storage, bigquery, kubernetes, logs, compute, '',
          ''vertex-ai, etc.)'', nl,
        tab, ''c. Clear description of planned actions with those resources'', nl,
        ''2. NEVER grant admin roles unless the justification explicitly mentions admin '',
          ''tasks such as, but not limited to,  '', dq, ''create'', dq, '', '', dq, ''delete'',
          dq, '', '', dq, ''configure'', dq, '', '', dq, ''manage infrastructure'', dq, nl,
        ''3. Do not generate values foruserId or requestId'', nl,
        ''4. When calling add_request_message, you MUST use requestId: '', dq,
          tpl (wd_accessRequestId webhookData), dq, nl,
        ''5. When calling create_grant, you MUST use userId: '', dq, tpl (wd_userId webhookData),
          dq, nl,
        nl,
        nl,
        nl,
        ''CURRENT REQUEST ANALYSIS:'', nl,
        ''- User Email: '', tpl (wd_userEmail webhookData), nl,
        ''- userId: '', tpl (wd_userId webhookData), nl,
        ''- GCP role name: '', dq, tpl (wd_accessLevelName webhookData), dq, nl,
        ''- GCP role description: '', dq, tpl (wd_accessLevelDescription webhookData), dq, nl,
        ''- Catalog Entry ID: '', tpl (wd_catalogEntryId webhookData), nl,
        ''- Justification: '', dq, tpl (wd_justification webhookData), dq, nl,
        nl,
        ''MANDATORY WORKFLOW:'', nl,
        ''1. Determine if the justification includes the required information (incident '',
          ''number/info, GPC resources, intent w/GCP resources).  If it does not, stop '',
          ''processing send a message of the justification on having enough information'', nl,
        ''2. If the justification contains the necessary information, then call '',
          ''list_entitlement_bundles to see all available roles and descriptions from the '',
          ''catalog'', nl,
        ''3. Compare the description of the role requested against the justification '',
          ''the user provided'', nl,
        tab, ''a.  If the requested role and role description aligns with the justification, '',
          ''then grant the role'', nl,
        ''    b.  If the requested role is over-permissive (for ex. they request a role '',
          ''with admin privileges) but there is no clear justification (ie mention of '',
          ''modifying the system via update, delete, configure, etc.), grant a less '',
          ''permissive entitlement based on the resources included in the justification.  '',
          ''Only grant a single bundle which directly maps to GCP resources mentioned '',
          ''explicitly in the justification      '', nl,
        ''4. Provide details for why the roles were granted and why if the original '',
          ''role requested was not grated.  Include in the details what roles were '',
          ''ultiamtely granted'', nl,
        ''5. Only grant bundles to GCP resources EXPLICITLY MENTIONED in the '',
          ''justification. For example, only grant Vertex bundles when the jusitifcation '',
          ''mentiones AI or machine learning, etc., grant BigQuery when justification '',
          ''includes terms like database, grant Storage entitlements when files or cloud '',
          ''storage is mentioned'', nl,
        nl,
        ''Remember: Your job is to enable legitimate work while minimizing access to '',
          ''unnecessary permissions and enforcing the principal of least privilege''
     ]"

text \<open>
  The first request carries the system prompt alone; the response goes to
  \<^verbatim>\<open>handleToolCalls\<close>, whose result is dropped; every error is thrown on. The
  events of the run start with the first request.
\<close>

definition processAccessRequest :: "env \<Rightarrow> webhookData \<Rightarrow> (js_error + response) list \<Rightarrow> world
    \<Rightarrow> outcome \<times> loop_state" where
  "processAccessRequest E webhookData replies w =
     (let first = Model_requested [System (systemPrompt webhookData)] in
      case replies of
        [] \<Rightarrow> (Awaiting_model, \<lparr>messages = [], world_of = w, events = [first]\<rparr>)
      | Inl e # rest \<Rightarrow> (Thrown e, \<lparr>messages = [], world_of = w, events = [first]\<rparr>)
      | Inr response # rest \<Rightarrow>
          (case handleToolCalls E response rest w of
             (out, st) \<Rightarrow> (out, st\<lparr>events := first # events st\<rparr>)))"

section \<open>Notions used to state the properties\<close>

subsection \<open>Values that can be written to the console\<close>

definition printable :: "jsval option \<Rightarrow> bool" where
  "printable v = (interpolate v = None)"

subsection \<open>The backend's answers to the grant requests of one call\<close>

text \<open>
  The requests \<open>createGrant\<close> sends for the entitlement ids \<open>es\<close> when no request
  fails, and the backend's answers to them, one after the other, on top of the
  history \<open>h\<close> of what was sent before.
\<close>

definition grantRequests :: "jsval option \<Rightarrow> jsval list \<Rightarrow> http_request list" where
  "grantRequests userId es = map (\<lambda>e. Post_grants (mk_grantData userId e)) es"

fun grantReplies :: "env \<Rightarrow> http_request list \<Rightarrow> jsval option \<Rightarrow> jsval list
    \<Rightarrow> (js_error + jsval) list" where
  "grantReplies E h userId [] = []"
| "grantReplies E h userId (e # es) =
     backend E (h @ [Post_grants (mk_grantData userId e)])
       # grantReplies E (h @ [Post_grants (mk_grantData userId e)]) userId es"

text \<open>
  \<open>reply_id\<close> is the \<^verbatim>\<open>id\<close> of the body of an answer. A grant request succeeded
  when the client did not throw, the body is not \<^verbatim>\<open>null\<close> and its \<^verbatim>\<open>id\<close> can be
  written to the console.
\<close>

fun reply_id :: "js_error + jsval \<Rightarrow> jsval option" where
  "reply_id (Inr (JObj kvs)) = map_of kvs ''id''"
| "reply_id r = None"

fun replied_ok :: "js_error + jsval \<Rightarrow> bool" where
  "replied_ok (Inl e) = False"
| "replied_ok (Inr JNull) = False"
| "replied_ok (Inr b) = (interpolate (reply_id (Inr b)) = None)"

definition created :: "jsval \<Rightarrow> js_error + jsval \<Rightarrow> grant" where
  "created e r = \<lparr>entitlementBundleId = e, grantId = reply_id r, status = ''created''\<rparr>"

definition mock_created :: "env \<Rightarrow> jsval \<Rightarrow> nat \<Rightarrow> grant" where
  "mock_created E e n =
     \<lparr>entitlementBundleId = e, grantId = Some (JStr (mockGrantId E n)), status = ''created''\<rparr>"

text \<open>
  The identifiers issued for the grants of one call: the backend's in live mode, the
  generated ones in mock mode.
\<close>

definition issued_ids :: "env \<Rightarrow> world \<Rightarrow> jsval option \<Rightarrow> jsval list \<Rightarrow> jsval option list" where
  "issued_ids E w userId es =
     (if mockMode E then map (\<lambda>n. Some (JStr (mockGrantId E n))) [ticks w..<ticks w + length es]
      else map reply_id (grantReplies E (sent w) userId es))"

text \<open>The records of a call all of whose grants succeed.\<close>

definition granted_records :: "env \<Rightarrow> world \<Rightarrow> jsval option \<Rightarrow> jsval list \<Rightarrow> grant list" where
  "granted_records E w userId es =
     (if mockMode E then map2 (mock_created E) es [ticks w..<ticks w + length es]
      else map2 created es (grantReplies E (sent w) userId es))"

text \<open>The grant records a result reports, and whether one of them is for a given id.\<close>

definition reported_grants :: "tool_result \<Rightarrow> grant list" where
  "reported_grants r = (case data r of Some (Grants gs) \<Rightarrow> gs | _ \<Rightarrow> [])"

definition reports_grant_for :: "tool_result \<Rightarrow> jsval \<Rightarrow> bool" where
  "reports_grant_for r e = (e \<in> set (map entitlementBundleId (reported_grants r)))"

subsection \<open>Shapes and required arguments\<close>

text \<open>
  The shape of a result as the envelope \<^verbatim>\<open>{success, data | error}\<close> sees it: the
  flag, whether \<^verbatim>\<open>data\<close> is there and whether \<^verbatim>\<open>error\<close> is there.
\<close>

definition shape :: "tool_result \<Rightarrow> bool \<times> bool \<times> bool" where
  "shape r = (success r, data r \<noteq> None, error r \<noteq> None)"

definition required_of :: "string \<Rightarrow> string list" where
  "required_of toolName = concat (map td_required (filter (\<lambda>t. td_name t = toolName) tools))"

definition missing_required :: "string \<Rightarrow> (string \<times> jsval) list \<Rightarrow> bool" where
  "missing_required toolName kvs = list_ex (\<lambda>k. map_of kvs k = None) (required_of toolName)"

subsection \<open>Turns of the agent loop\<close>

text \<open>The tool-call requests of a model turn: none when the property is absent.\<close>

definition requested_calls :: "assistant_message \<Rightarrow> tool_call list" where
  "requested_calls m = (case tool_calls m of None \<Rightarrow> [] | Some calls \<Rightarrow> calls)"

text \<open>The arguments text of a tool call is JSON.\<close>

definition parses :: "tool_call \<Rightarrow> bool" where
  "parses c = (case tc_arguments c of Inl e \<Rightarrow> False | Inr args \<Rightarrow> True)"

text \<open>
  The results of the calls of a turn when \<open>executeTool\<close> is called for each of them,
  one after the other from the world \<open>w\<close>, each call in the world the calls before
  it have left; and that last world. The result of a call is what \<open>executeTool\<close>
  returns, or the failed result with the message of what it throws.
\<close>

fun toolResults :: "env \<Rightarrow> world \<Rightarrow> tool_call list \<Rightarrow> tool_result list \<times> world" where
  "toolResults E w [] = ([], w)"
| "toolResults E w (c # cs) =
     (case tc_arguments c of
        Inl e \<Rightarrow> ([], w)
      | Inr args \<Rightarrow>
          (case executeTool E w (tc_name c) args of
             (out, w1) \<Rightarrow>
               (case toolResults E w1 cs of
                  (rs, w') \<Rightarrow>
                    ((case out of Inr result \<Rightarrow> result | Inl e \<Rightarrow> Failed (message_of e)) # rs,
                     w'))))"

fun is_system :: "message \<Rightarrow> bool" where
  "is_system (System s) = True"
| "is_system m = False"

text \<open>
  The messages of every request \<open>handleToolCalls\<close> sends start with its own system
  message, which is the only system message among them.
\<close>

definition followup_messages :: "message list \<Rightarrow> bool" where
  "followup_messages msgs =
     (case msgs of
        System s # rest \<Rightarrow> s = ''Process this access request autonomously.'' \<and> \<not> list_ex is_system rest
      | _ \<Rightarrow> False)"

section \<open>Example environments and runs\<close>

definition w0 :: world where
  "w0 = \<lparr>sent = [], ticks = 0\<rparr>"

definition mock_env :: env where
  "mock_env =
     \<lparr>mockMode = True,
      backend = (\<lambda>h. Inl (AxiosError ''Network Error'')),
      date_now = (\<lambda>n. ''1700000000000''),
      math_random = (\<lambda>n. ''k3j9x0a1b'')\<rparr>"

text \<open>
  A live backend that accepts everything: a grant gets the identifier
  \<^verbatim>\<open>grant-for-\<close> followed by the bundle id, a listing has no bundle, a message is
  acknowledged.
\<close>

fun accepting_backend :: "http_request list \<Rightarrow> js_error + jsval" where
  "accepting_backend h =
     (case rev h of
        [] \<Rightarrow> Inl (AxiosError ''Network Error'')
      | Get_entitlement_bundles a # past \<Rightarrow> Inr (JObj [(''data'', JArr [])])
      | Post_grants gd # past \<Rightarrow>
          Inr (JObj [(''id'',
            JStr (''grant-for-'' @ (case gd_entitlementBundleId gd of JStr s \<Rightarrow> s | _ \<Rightarrow> ''?'')))])
      | Post_messages i m # past \<Rightarrow> Inr (JObj [(''id'', JStr ''msg-1'')]))"

definition live_env :: env where
  "live_env =
     \<lparr>mockMode = False,
      backend = accepting_backend,
      date_now = (\<lambda>n. ''1700000000000''),
      math_random = (\<lambda>n. ''k3j9x0a1b'')\<rparr>"

text \<open>The same backend, except that the grant of bundle \<^verbatim>\<open>B\<close> is refused.\<close>

fun refusing_B_backend :: "http_request list \<Rightarrow> js_error + jsval" where
  "refusing_B_backend h =
     (case rev h of
        Post_grants gd # past \<Rightarrow>
          (if gd_entitlementBundleId gd = JStr ''B''
           then Inl (AxiosError ''Request failed with status code 500'')
           else accepting_backend h)
      | _ \<Rightarrow> accepting_backend h)"

definition refusing_B_env :: env where
  "refusing_B_env = live_env\<lparr>backend := refusing_B_backend\<rparr>"

text \<open>A backend that answers every grant request with the same grant.\<close>

definition same_grant_env :: env where
  "same_grant_env = live_env\<lparr>backend := (\<lambda>h. Inr (JObj [(''id'', JStr ''g1'')]))\<rparr>"

definition requester :: "jsval option" where
  "requester = Some (JStr ''00uq3zp622HWDY2Jc697'')"

definition why :: "jsval option" where
  "why = Some (JStr ''storage viewer matches the justification'')"

text \<open>A request, and the turns of a model that lists the bundles and calls a tool that
  does not exist, then gives its decision.\<close>

definition demo_request :: webhookData where
  "demo_request =
     \<lparr>wd_accessRequestId = Some ''reqmugy3wLZYLyU8696'',
      wd_userId = Some ''00uq3zp622HWDY2Jc697'',
      wd_userEmail = Some ''user@company.com'',
      wd_accessLevelName = Some ''Storage Object Admin - storage.objectAdmin'',
      wd_accessLevelDescription = Some ''Grants full control over Cloud Storage objects.'',
      wd_catalogEntryId = Some ''enbmtz8r2XuZWboE696'',
      wd_justification = Some ''routine work reviewing storage objects, ticket INC123''\<rparr>"

definition list_call :: tool_call where
  "list_call =
     \<lparr>tc_id = ''call_1'',
      tc_name = ''list_entitlement_bundles'',
      tc_arguments = Inr (JObj [(''applicationId'', JStr ''0oavij8jl7fx84fA5697'')])\<rparr>"

definition revoke_call :: tool_call where
  "revoke_call =
     \<lparr>tc_id = ''call_2'', tc_name = ''revoke_grant'', tc_arguments = Inr (JObj [])\<rparr>"

definition first_turn :: assistant_message where
  "first_turn = \<lparr>content = None, tool_calls = Some [list_call, revoke_call]\<rparr>"

definition final_turn :: assistant_message where
  "final_turn = \<lparr>content = Some ''Granted Storage Object Viewer.'', tool_calls = None\<rparr>"

text \<open>A call whose arguments text breaks off, and turns that hold it.\<close>

definition bad_call :: tool_call where
  "bad_call =
     \<lparr>tc_id = ''call_3'',
      tc_name = ''list_entitlement_bundles'',
      tc_arguments = Inl (SyntaxError ''Unexpected end of JSON input'')\<rparr>"

definition broken_turn :: assistant_message where
  "broken_turn = \<lparr>content = None, tool_calls = Some [bad_call, list_call]\<rparr>"


text \<open>A turn whose \<^verbatim>\<open>tool_calls\<close> is the empty array.\<close>

definition empty_turn :: assistant_message where
  "empty_turn = \<lparr>content = Some ''Nothing to do.'', tool_calls = Some []\<rparr>"

definition note_args :: jsval where
  "note_args =
     JObj [(''requestId'', JStr ''reqmugy3wLZYLyU8696''),
           (''message'', JStr ''Granted Storage Object Viewer.'')]"

section \<open>Properties of createGrant\<close>

subsection \<open>Writing to the console\<close>

lemma interpolate_Some [simp]:
  "interpolate (Some v) = (if converts v then None else Some not_primitive)"
  by (simp add: interpolate_def)

lemma interpolate_None [simp]: "interpolate None = None"
  by (simp add: interpolate_def)

lemma interpolate_error: "interpolate v = Some e \<Longrightarrow> e = not_primitive"
  by (cases v) (auto simp: interpolate_def split: if_splits)

lemma printable_simps [simp]:
  "printable None" "printable (Some v) \<longleftrightarrow> converts v"
  by (simp_all add: printable_def)

lemma grantArguments_array:
  "grantArguments userId (Some (JArr es)) reasoning
     = (if printable userId \<and> printable reasoning then Inr es else Inl not_primitive)"
  by (auto simp: grantArguments_def printable_def split: option.splits dest: interpolate_error)

lemma grantArguments_no_ids:
  "grantArguments userId None reasoning
     = (if printable userId then Inl (cannot_read ''undefined'' ''length'') else Inl not_primitive)"
  by (auto simp: grantArguments_def printable_def split: option.splits dest: interpolate_error)

subsection \<open>The loops\<close>

lemma length_grantReplies [simp]: "length (grantReplies E h u es) = length es"
  by (induction es arbitrary: h) auto

text \<open>
  The \<open>i\<close>-th answer is the backend's answer to the request for the \<open>i\<close>-th id, the
  requests for the ids before it having been sent.
\<close>

lemma grantReplies_nth:
  "i < length es \<Longrightarrow>
     grantReplies E h u es ! i = backend E (h @ take (Suc i) (grantRequests u es))"
proof (induction es arbitrary: h i)
  case Nil
  then show ?case by simp
next
  case (Cons e es)
  show ?case
  proof (cases i)
    case 0
    then show ?thesis by (simp add: grantRequests_def)
  next
    case (Suc j)
    with Cons.prems have "j < length es" by simp
    from Cons.IH [OF this, of "h @ [Post_grants (mk_grantData u e)]"] Suc
    show ?thesis by (simp add: grantRequests_def)
  qed
qed

lemma getprop_id_ok:
  "replied_ok (Inr b) \<Longrightarrow>
     getprop (Some b) ''id'' = Inr (reply_id (Inr b)) \<and> interpolate (reply_id (Inr b)) = None"
  by (cases b) auto

lemma grantLoop_all_ok:
  "list_all converts es \<Longrightarrow>
   list_all replied_ok (grantReplies E (sent w) u es) \<Longrightarrow>
     grantLoop E u es acc w =
       (Inr (acc @ map2 created es (grantReplies E (sent w) u es)),
        w\<lparr>sent := sent w @ grantRequests u es\<rparr>)"
proof (induction es arbitrary: acc w)
  case Nil
  then show ?case by (simp add: grantRequests_def)
next
  case (Cons e es)
  let ?req = "Post_grants (mk_grantData u e)"
  from Cons.prems obtain b where b: "backend E (sent w @ [?req]) = Inr b" "replied_ok (Inr b)"
    by (cases "backend E (sent w @ [?req])") auto
  from Cons.prems
  have rest: "list_all replied_ok (grantReplies E (sent (w\<lparr>sent := sent w @ [?req]\<rparr>)) u es)"
    and conv: "converts e" "list_all converts es"
    by simp_all
  show ?case
    using b conv(1) Cons.IH [OF conv(2) rest] getprop_id_ok [OF b(2)]
    by (simp add: axios_def created_def grantRequests_def)
qed

lemma grantLoop_first_failure:
  "list_all converts (pre @ [b]) \<Longrightarrow>
   list_all replied_ok (grantReplies E (sent w) u pre) \<Longrightarrow>
   backend E (sent w @ grantRequests u (pre @ [b])) = Inl err \<Longrightarrow>
     grantLoop E u (pre @ b # post) acc w =
       (Inl err, w\<lparr>sent := sent w @ grantRequests u (pre @ [b])\<rparr>)"
proof (induction pre arbitrary: acc w)
  case Nil
  then show ?case by (simp add: grantRequests_def axios_def)
next
  case (Cons e es)
  let ?req = "Post_grants (mk_grantData u e)"
  from Cons.prems obtain c where c: "backend E (sent w @ [?req]) = Inr c" "replied_ok (Inr c)"
    by (cases "backend E (sent w @ [?req])") auto
  let ?w = "w\<lparr>sent := sent w @ [?req]\<rparr>"
  from Cons.prems have rest: "list_all replied_ok (grantReplies E (sent ?w) u es)"
    and conv: "converts e" "list_all converts (es @ [b])"
    by simp_all
  from Cons.prems have fail: "backend E (sent ?w @ grantRequests u (es @ [b])) = Inl err"
    by (simp add: grantRequests_def)
  show ?case
    using c conv(1) Cons.IH [OF conv(2) rest fail] getprop_id_ok [OF c(2)]
    by (simp add: axios_def grantRequests_def)
qed

lemma grantLoop_Inr_replies_ok:
  "grantLoop E u es acc w = (Inr gs, w') \<Longrightarrow>
     list_all converts es \<and> list_all replied_ok (grantReplies E (sent w) u es)"
proof (induction es arbitrary: acc w)
  case Nil
  then show ?case by simp
next
  case (Cons e es)
  let ?req = "Post_grants (mk_grantData u e)"
  from Cons.prems have conv: "converts e"
    by (cases "converts e") auto
  with Cons.prems obtain c where c: "backend E (sent w @ [?req]) = Inr c"
    by (cases "backend E (sent w @ [?req])") (auto simp: axios_def)
  with Cons.prems conv have ok: "replied_ok (Inr c)"
    by (cases c) (auto simp: axios_def split: option.splits)
  from Cons.prems c conv getprop_id_ok [OF ok]
  have "grantLoop E u es (acc @ [created e (Inr c)]) (w\<lparr>sent := sent w @ [?req]\<rparr>)
          = (Inr gs, w')"
    by (simp add: axios_def created_def)
  from Cons.IH [OF this] c ok conv show ?case by simp
qed

lemma mockGrantLoop_eq:
  "list_all converts es \<Longrightarrow>
     mockGrantLoop E es acc w =
       (Inr (acc @ map2 (mock_created E) es [ticks w..<ticks w + length es]),
        w\<lparr>ticks := ticks w + length es\<rparr>)"
proof (induction es arbitrary: acc w)
  case Nil
  then show ?case by simp
next
  case (Cons e es)
  then show ?case
    by (simp add: mock_created_def upt_conv_Cons del: upt_Suc)
qed

lemma mockGrantLoop_Inr_converts:
  "mockGrantLoop E es acc w = (Inr gs, w') \<Longrightarrow> list_all converts es"
proof (induction es arbitrary: acc w)
  case Nil
  then show ?case by simp
next
  case (Cons e es)
  from Cons.prems have conv: "converts e"
    by (cases "converts e") auto
  with Cons.prems Cons.IH show ?case by auto
qed

lemma map2_created_fields:
  "length rs = length es \<Longrightarrow>
     map entitlementBundleId (map2 created es rs) = es
     \<and> map grantId (map2 created es rs) = map reply_id rs
     \<and> (\<forall>g\<in>set (map2 created es rs). status g = ''created'')"
  by (induction es rs rule: list_induct2') (auto simp: created_def)

lemma map2_mock_created_fields:
  "length ns = length es \<Longrightarrow>
     map entitlementBundleId (map2 (mock_created E) es ns) = es
     \<and> map grantId (map2 (mock_created E) es ns) = map (\<lambda>n. Some (JStr (mockGrantId E n))) ns
     \<and> (\<forall>g\<in>set (map2 (mock_created E) es ns). status g = ''created'')"
  by (induction es ns rule: list_induct2') (auto simp: mock_created_def)

subsection \<open>The example environments\<close>

lemma live_env_sel [simp]:
  "mockMode live_env = False" "backend live_env = accepting_backend"
  by (simp_all add: live_env_def)

lemma same_grant_env_sel [simp]:
  "mockMode same_grant_env = False"
  "backend same_grant_env = (\<lambda>h. Inr (JObj [(''id'', JStr ''g1'')]))"
  by (simp_all add: same_grant_env_def live_env_def)

lemma refusing_B_env_sel [simp]:
  "mockMode refusing_B_env = False" "backend refusing_B_env = refusing_B_backend"
  by (simp_all add: refusing_B_env_def live_env_def)

lemma mock_env_sel [simp]:
  "mockMode mock_env = True"
  by (simp add: mock_env_def)

lemma example_arguments [simp]: "printable requester" "printable why"
  by (simp_all add: requester_def why_def)

subsection \<open>All grants succeed\<close>

lemma createGrant_granted_records:
  "printable userId \<Longrightarrow> printable reasoning \<Longrightarrow> list_all converts es \<Longrightarrow>
   \<not> mockMode E \<longrightarrow> list_all replied_ok (grantReplies E (sent w) userId es) \<Longrightarrow>
     fst (createGrant E w userId applicationId (Some (JArr es)) reasoning)
       = Inr (Ok_grants (granted_records E w userId es) reasoning)"
proof (cases "mockMode E")
  case True
  assume "printable userId" "printable reasoning" "list_all converts es"
  with True show ?thesis
    by (simp add: createGrant_def grantArguments_array mockGrantLoop_eq granted_records_def)
next
  case False
  assume args: "printable userId" "printable reasoning" and conv: "list_all converts es"
    and "\<not> mockMode E \<longrightarrow> list_all replied_ok (grantReplies E (sent w) userId es)"
  with False have ok: "list_all replied_ok (grantReplies E (sent w) userId es)" by simp
  show ?thesis
    using False args
    by (simp add: createGrant_def grantArguments_array grantLoop_all_ok [OF conv ok]
        granted_records_def)
qed

lemma granted_records_fields:
  shows "length (granted_records E w userId es) = length es"
    and "map entitlementBundleId (granted_records E w userId es) = es"
    and "map grantId (granted_records E w userId es) = issued_ids E w userId es"
    and "\<forall>g\<in>set (granted_records E w userId es). status g = ''created''"
proof -
  have "length (granted_records E w userId es) = length es
   \<and> map entitlementBundleId (granted_records E w userId es) = es
   \<and> map grantId (granted_records E w userId es) = issued_ids E w userId es
   \<and> (\<forall>g\<in>set (granted_records E w userId es). status g = ''created'')"
  proof (cases "mockMode E")
    case True
    then show ?thesis
      using map2_mock_created_fields [of "[ticks w..<ticks w + length es]" es E]
      by (simp add: granted_records_def issued_ids_def)
  next
    case False
    then show ?thesis
      using map2_created_fields [of "grantReplies E (sent w) userId es" es]
      by (simp add: granted_records_def issued_ids_def)
  qed
  then show "length (granted_records E w userId es) = length es"
    and "map entitlementBundleId (granted_records E w userId es) = es"
    and "map grantId (granted_records E w userId es) = issued_ids E w userId es"
    and "\<forall>g\<in>set (granted_records E w userId es). status g = ''created''"
    by blast+
qed

text \<open>
  Claim C5, as amended. For a \<^verbatim>\<open>create_grant\<close> call with the \<open>N\<close> entitlement ids
  \<open>es\<close>, whose user id, reasoning and ids can be written to the console (every value
  can but an object with an own \<^verbatim>\<open>toString\<close> property, and an array that holds
  one): if every grant request is answered without error, by a body that is not
  \<^verbatim>\<open>null\<close> and whose \<^verbatim>\<open>id\<close> can be written to the console (in mock mode there is
  no request), the result has \<^verbatim>\<open>success: true\<close> and its data holds exactly \<open>N\<close>
  grant records, each with status \<^verbatim>\<open>created\<close>; the records' identifiers are the
  ones issued, copied as they come, so they are pairwise distinct exactly when the
  issued ones are. The executor neither makes nor checks identifiers for distinctness.
\<close>

theorem createGrant_all_granted:
  "printable userId \<Longrightarrow> printable reasoning \<Longrightarrow> list_all converts es \<Longrightarrow>
   \<not> mockMode E \<longrightarrow> list_all replied_ok (grantReplies E (sent w) userId es) \<Longrightarrow>
     \<exists>gs. fst (createGrant E w userId applicationId (Some (JArr es)) reasoning)
            = Inr (Ok_grants gs reasoning)
        \<and> success (Ok_grants gs reasoning)
        \<and> data (Ok_grants gs reasoning) = Some (Grants gs)
        \<and> length gs = length es
        \<and> (\<forall>g\<in>set gs. status g = ''created'')
        \<and> map grantId gs = issued_ids E w userId es
        \<and> (distinct (map grantId gs) \<longleftrightarrow> distinct (issued_ids E w userId es))"
proof -
  assume args: "printable userId" "printable reasoning" "list_all converts es"
    and hyp: "\<not> mockMode E \<longrightarrow> list_all replied_ok (grantReplies E (sent w) userId es)"
  let ?gs = "granted_records E w userId es"
  from createGrant_granted_records [OF args hyp, of applicationId]
    granted_records_fields [of E w userId es]
  show ?thesis by (intro exI [of _ ?gs]) simp
qed

text \<open>The accepting backend grants \<^verbatim>\<open>A\<close> and \<^verbatim>\<open>B\<close> under two identifiers.\<close>

theorem createGrant_all_granted_witness:
  "printable requester \<and> printable why \<and> list_all converts [JStr ''A'', JStr ''B'']
   \<and> list_all replied_ok (grantReplies live_env (sent w0) requester [JStr ''A'', JStr ''B''])
   \<and> (\<exists>gs. fst (createGrant live_env w0 requester None (Some (JArr [JStr ''A'', JStr ''B''])) why)
            = Inr (Ok_grants gs why)
        \<and> length gs = 2
        \<and> map grantId gs = [Some (JStr ''grant-for-A''), Some (JStr ''grant-for-B'')])"
proof -
  have conv: "list_all converts [JStr ''A'', JStr ''B'']" by simp
  have ok: "list_all replied_ok (grantReplies live_env (sent w0) requester [JStr ''A'', JStr ''B''])"
    by (simp add: mk_grantData_def)
  then have hyp: "\<not> mockMode live_env \<longrightarrow>
      list_all replied_ok (grantReplies live_env (sent w0) requester [JStr ''A'', JStr ''B''])"
    by simp
  have ids: "issued_ids live_env w0 requester [JStr ''A'', JStr ''B'']
      = [Some (JStr ''grant-for-A''), Some (JStr ''grant-for-B'')]"
    by (simp add: issued_ids_def mk_grantData_def)
  from createGrant_all_granted [OF example_arguments conv hyp, of None] ok ids
  show ?thesis by auto
qed

text \<open>
  Claim C5 as stated fails: both grant requests succeed, and the two records carry the
  same identifier, the one the backend gave twice.
\<close>

theorem createGrant_same_id_counterexample:
  "list_all replied_ok (grantReplies same_grant_env (sent w0) requester [JStr ''A'', JStr ''B''])
   \<and> fst (createGrant same_grant_env w0 requester None (Some (JArr [JStr ''A'', JStr ''B''])) why)
       = Inr (Ok_grants
           [\<lparr>entitlementBundleId = JStr ''A'', grantId = Some (JStr ''g1''), status = ''created''\<rparr>,
            \<lparr>entitlementBundleId = JStr ''B'', grantId = Some (JStr ''g1''), status = ''created''\<rparr>]
           why)
   \<and> \<not> distinct (map grantId
           [\<lparr>entitlementBundleId = JStr ''A'', grantId = Some (JStr ''g1''), status = ''created''\<rparr>,
            \<lparr>entitlementBundleId = JStr ''B'', grantId = Some (JStr ''g1''), status = ''created''\<rparr>])"
  by (simp add: createGrant_def grantArguments_array axios_def w0_def)

subsection \<open>Order, identifiers and the echoed reasoning\<close>

lemma createGrant_success_cases:
  assumes "fst (createGrant E w userId applicationId (Some (JArr es)) reasoning) = Inr r"
    and "success r"
  shows "printable userId \<and> printable reasoning \<and> list_all converts es
    \<and> (mockMode E \<or> list_all replied_ok (grantReplies E (sent w) userId es))"
proof -
  have args: "printable userId \<and> printable reasoning"
    using assms
    by (cases "mockMode E")
      (auto simp: createGrant_def grantArguments_array split: if_splits)
  then have ga: "grantArguments userId (Some (JArr es)) reasoning = Inr es"
    by (simp add: grantArguments_array)
  show ?thesis
  proof (cases "mockMode E")
    case True
    obtain res w' where g: "mockGrantLoop E es [] w = (res, w')"
      by (cases "mockGrantLoop E es [] w")
    with assms True ga obtain gs where "res = Inr gs"
      by (cases res) (auto simp: createGrant_def)
    with g mockGrantLoop_Inr_converts have "list_all converts es" by blast
    with args True show ?thesis by simp
  next
    case False
    obtain res w' where g: "grantLoop E userId es [] w = (res, w')"
      by (cases "grantLoop E userId es [] w")
    with assms False ga obtain gs where "res = Inr gs"
      by (cases res) (auto simp: createGrant_def)
    with g grantLoop_Inr_replies_ok args show ?thesis by blast
  qed
qed

text \<open>
  Claim C10. A \<^verbatim>\<open>create_grant\<close> call on the ids \<open>es = [e1, ..., eN]\<close> that returns
  success returns \<open>N\<close> records in the order of the ids: the \<open>i\<close>-th has
  \<^verbatim>\<open>entitlementBundleId\<close> \<open>ei\<close> and the identifier issued for it, which in live mode
  is the \<^verbatim>\<open>id\<close> of the backend's answer to the \<open>i\<close>-th grant request (all of which
  succeeded); and the result object has the caller's \<^verbatim>\<open>reasoning\<close> as a third
  property next to \<^verbatim>\<open>success\<close> and \<^verbatim>\<open>data\<close>.
\<close>

theorem createGrant_success_order:
  "fst (createGrant E w userId applicationId (Some (JArr es)) reasoning) = Inr r \<Longrightarrow>
   success r \<Longrightarrow>
     \<exists>gs. r = Ok_grants gs reasoning
        \<and> data r = Some (Grants gs)
        \<and> length gs = length es
        \<and> (\<forall>i<length es. entitlementBundleId (gs ! i) = es ! i
              \<and> grantId (gs ! i) = issued_ids E w userId es ! i)
        \<and> (\<not> mockMode E \<longrightarrow>
              list_all replied_ok (grantReplies E (sent w) userId es)
              \<and> issued_ids E w userId es = map reply_id (grantReplies E (sent w) userId es))
        \<and> keys r = [''success'', ''data'', ''reasoning'']
        \<and> ''reasoning'' \<notin> {''success'', ''data'', ''error''}"
proof -
  assume res: "fst (createGrant E w userId applicationId (Some (JArr es)) reasoning) = Inr r"
    and succ: "success r"
  let ?gs = "granted_records E w userId es"
  from createGrant_success_cases [OF res succ]
  have args: "printable userId" "printable reasoning" "list_all converts es"
    and hyp: "\<not> mockMode E \<longrightarrow> list_all replied_ok (grantReplies E (sent w) userId es)"
    by blast+
  from createGrant_granted_records [OF args hyp, of applicationId] res
  have r: "r = Ok_grants ?gs reasoning" by simp
  note fields = granted_records_fields [of E w userId es]
  have "\<forall>i<length es. entitlementBundleId (?gs ! i) = es ! i
      \<and> grantId (?gs ! i) = issued_ids E w userId es ! i"
  proof (intro allI impI)
    fix i assume "i < length es"
    with fields(1) have i: "i < length ?gs" by simp
    have "entitlementBundleId (?gs ! i) = map entitlementBundleId ?gs ! i"
      using i by (rule nth_map [symmetric])
    moreover have "grantId (?gs ! i) = map grantId ?gs ! i"
      using i by (rule nth_map [symmetric])
    ultimately show "entitlementBundleId (?gs ! i) = es ! i
      \<and> grantId (?gs ! i) = issued_ids E w userId es ! i"
      by (simp only: fields(2,3))
  qed
  with r fields(1) hyp show ?thesis by (auto simp: issued_ids_def)
qed

theorem createGrant_success_order_witness:
  "fst (createGrant live_env w0 requester None (Some (JArr [JStr ''A'', JStr ''B''])) why)
     = Inr (Ok_grants
         [\<lparr>entitlementBundleId = JStr ''A'', grantId = Some (JStr ''grant-for-A''),
           status = ''created''\<rparr>,
          \<lparr>entitlementBundleId = JStr ''B'', grantId = Some (JStr ''grant-for-B''),
           status = ''created''\<rparr>]
         why)
   \<and> issued_ids live_env w0 requester [JStr ''A'', JStr ''B'']
       = [Some (JStr ''grant-for-A''), Some (JStr ''grant-for-B'')]
   \<and> keys (Ok_grants
         [\<lparr>entitlementBundleId = JStr ''A'', grantId = Some (JStr ''grant-for-A''),
           status = ''created''\<rparr>,
          \<lparr>entitlementBundleId = JStr ''B'', grantId = Some (JStr ''grant-for-B''),
           status = ''created''\<rparr>]
         why) = [''success'', ''data'', ''reasoning'']"
proof -
  let ?r = "Ok_grants
         [\<lparr>entitlementBundleId = JStr ''A'', grantId = Some (JStr ''grant-for-A''),
           status = ''created''\<rparr>,
          \<lparr>entitlementBundleId = JStr ''B'', grantId = Some (JStr ''grant-for-B''),
           status = ''created''\<rparr>]
         why"
  have res: "fst (createGrant live_env w0 requester None (Some (JArr [JStr ''A'', JStr ''B''])) why)
     = Inr ?r"
    by (simp add: createGrant_def grantArguments_array axios_def w0_def mk_grantData_def)
  have succ: "success ?r" by simp
  from createGrant_success_order [OF res succ]
  have "issued_ids live_env w0 requester [JStr ''A'', JStr ''B'']
       = map reply_id (grantReplies live_env (sent w0) requester [JStr ''A'', JStr ''B''])"
    by auto
  then have "issued_ids live_env w0 requester [JStr ''A'', JStr ''B'']
       = [Some (JStr ''grant-for-A''), Some (JStr ''grant-for-B'')]"
    by (simp add: mk_grantData_def)
  with res show ?thesis by simp
qed

subsection \<open>A grant fails after others succeeded\<close>

text \<open>
  Claim C1, as amended. In live mode, for a user id, a reasoning and ids that can be
  written to the console: when the grants of the ids \<open>pre\<close> succeed (each is answered
  without error, by a body that is not \<^verbatim>\<open>null\<close> and whose \<^verbatim>\<open>id\<close> can be written
  to the console) and the grant of the next id \<open>b\<close> fails at the backend with error
  \<open>err\<close>, the result does not
  report overall success: it is \<^verbatim>\<open>{ success: false, error }\<close> with the message of
  \<open>err\<close> and no data. It reports no grant at all, so the grants made for \<open>pre\<close> are
  not in it, and the ids \<open>post\<close> after \<open>b\<close> are not attempted: the requests sent
  are those for \<open>pre\<close> and \<open>b\<close>.
\<close>

theorem createGrant_partial_failure:
  "\<not> mockMode E \<Longrightarrow>
   printable userId \<Longrightarrow> printable reasoning \<Longrightarrow> list_all converts (pre @ [b]) \<Longrightarrow>
   list_all replied_ok (grantReplies E (sent w) userId pre) \<Longrightarrow>
   backend E (sent w @ grantRequests userId (pre @ [b])) = Inl err \<Longrightarrow>
     createGrant E w userId applicationId (Some (JArr (pre @ b # post))) reasoning
       = (Inr (Failed (message_of err)), w\<lparr>sent := sent w @ grantRequests userId (pre @ [b])\<rparr>)
     \<and> \<not> success (Failed (message_of err))
     \<and> error (Failed (message_of err)) = Some (message_of err)
     \<and> data (Failed (message_of err)) = None
     \<and> (\<forall>e. \<not> reports_grant_for (Failed (message_of err)) e)"
  by (simp add: createGrant_def grantArguments_array grantLoop_first_failure
      reports_grant_for_def reported_grants_def)

text \<open>\<^verbatim>\<open>A\<close> is granted, \<^verbatim>\<open>B\<close> is refused, \<^verbatim>\<open>C\<close> is never requested.\<close>

theorem createGrant_partial_failure_witness:
  "\<not> mockMode refusing_B_env
   \<and> printable requester \<and> printable why \<and> list_all converts ([JStr ''A''] @ [JStr ''B''])
   \<and> list_all replied_ok (grantReplies refusing_B_env (sent w0) requester [JStr ''A''])
   \<and> backend refusing_B_env (sent w0 @ grantRequests requester ([JStr ''A''] @ [JStr ''B'']))
       = Inl (AxiosError ''Request failed with status code 500'')
   \<and> createGrant refusing_B_env w0 requester None
        (Some (JArr ([JStr ''A''] @ JStr ''B'' # [JStr ''C'']))) why
       = (Inr (Failed ''Request failed with status code 500''),
          w0\<lparr>sent := sent w0 @ grantRequests requester ([JStr ''A''] @ [JStr ''B''])\<rparr>)"
proof -
  have live: "\<not> mockMode refusing_B_env" by simp
  have conv: "list_all converts ([JStr ''A''] @ [JStr ''B''])" by simp
  have ok: "list_all replied_ok (grantReplies refusing_B_env (sent w0) requester [JStr ''A''])"
    by (simp add: mk_grantData_def)
  have fail: "backend refusing_B_env (sent w0 @ grantRequests requester ([JStr ''A''] @ [JStr ''B'']))
       = Inl (AxiosError ''Request failed with status code 500'')"
    by (simp add: grantRequests_def mk_grantData_def w0_def)
  from createGrant_partial_failure [OF live example_arguments conv ok fail, of None "[JStr ''C'']"]
    live conv ok fail
  show ?thesis by simp
qed

text \<open>
  Claim C1 as stated fails: the backend grants \<^verbatim>\<open>A\<close> and refuses \<^verbatim>\<open>B\<close>, and the
  result of the call has no record of the grant for \<^verbatim>\<open>A\<close>.
\<close>

theorem createGrant_drops_granted_counterexample:
  "replied_ok (backend refusing_B_env [Post_grants (mk_grantData requester (JStr ''A''))])
   \<and> backend refusing_B_env
        [Post_grants (mk_grantData requester (JStr ''A'')),
         Post_grants (mk_grantData requester (JStr ''B''))]
       = Inl (AxiosError ''Request failed with status code 500'')
   \<and> fst (createGrant refusing_B_env w0 requester None (Some (JArr [JStr ''A'', JStr ''B''])) why)
       = Inr (Failed ''Request failed with status code 500'')
   \<and> \<not> reports_grant_for (Failed ''Request failed with status code 500'') (JStr ''A'')"
  by (simp add: createGrant_def grantArguments_array axios_def w0_def mk_grantData_def
      reports_grant_for_def reported_grants_def)

section \<open>Properties of executeTool\<close>

subsection \<open>Unknown tools\<close>

text \<open>
  Claim C2. For a tool name that is not one of the three registered names,
  \<open>executeTool\<close> throws the error \<^verbatim>\<open>Unknown MCP tool: <name>\<close>, whatever the
  arguments, without touching the backend; it returns no result, so no successful one.
\<close>

theorem executeTool_unknown_tool:
  "toolName \<notin> set tool_names \<Longrightarrow>
     executeTool E w toolName args = (Inl (Error (''Unknown MCP tool: '' @ toolName)), w)
     \<and> (\<forall>r. fst (executeTool E w toolName args) \<noteq> Inr r)"
  by (auto simp: executeTool_def tool_names_def tools_def)

theorem executeTool_unknown_tool_witness:
  "''delete_user'' \<notin> set tool_names
   \<and> executeTool mock_env w0 ''delete_user'' (JObj [])
       = (Inl (Error ''Unknown MCP tool: delete_user''), w0)
   \<and> (\<forall>r. fst (executeTool mock_env w0 ''delete_user'' (JObj [])) \<noteq> Inr r)"
  using executeTool_unknown_tool [of "''delete_user''" mock_env w0 "JObj []"]
  by (simp add: tool_names_def tools_def)

subsection \<open>Missing arguments\<close>

lemma interpolate_printable:
  "interpolate v = (if printable v then None else Some not_primitive)"
  by (cases v) (simp_all add: printable_def)

lemma createGrant_live_returns:
  "\<not> mockMode E \<Longrightarrow> \<exists>r. fst (createGrant E w userId applicationId ids reasoning) = Inr r"
  by (auto simp: createGrant_def split: sum.splits prod.splits)

lemma listEntitlementBundles_live_returns:
  "\<not> mockMode E \<Longrightarrow> \<exists>r. fst (listEntitlementBundles E w applicationId) = Inr r"
  by (auto simp: listEntitlementBundles_def split: option.splits sum.splits prod.splits)

lemma addRequestMessage_live_returns:
  "\<not> mockMode E \<Longrightarrow> \<exists>r. fst (addRequestMessage E w requestId message) = Inr r"
  by (auto simp: addRequestMessage_def split: option.splits sum.splits prod.splits)

lemma executeTool_live_returns:
  "\<not> mockMode E \<Longrightarrow> toolName \<in> set tool_names \<Longrightarrow>
     \<exists>r. fst (executeTool E w toolName (JObj kvs)) = Inr r"
  using createGrant_live_returns [of E w "map_of kvs ''userId''" "Some JNull"
      "map_of kvs ''entitlementIds''" "map_of kvs ''reasoning''"]
    listEntitlementBundles_live_returns [of E w "map_of kvs ''applicationId''"]
    addRequestMessage_live_returns [of E w "map_of kvs ''requestId''" "map_of kvs ''message''"]
  by (auto simp: executeTool_def tool_names_def tools_def)

text \<open>
  Claim C7, as amended. \<open>executeTool\<close> does not check that the required arguments are
  there: an absent one reaches the tool as \<^verbatim>\<open>undefined\<close>. For a known tool called
  with an argument object that lacks a required argument:
  \<^item> in live mode a result is returned, never an error thrown, and \<^verbatim>\<open>create_grant\<close>
    without \<^verbatim>\<open>entitlementIds\<close> returns a failed result, no request being sent,
    with the message of the TypeError of the read of \<^verbatim>\<open>length\<close> when the user id
    can be written to the console;
  \<^item> in mock mode \<^verbatim>\<open>list_entitlement_bundles\<close> succeeds;
    \<^verbatim>\<open>add_request_message\<close> succeeds when what is there of its arguments can be
    written to the console, and throws otherwise; \<^verbatim>\<open>create_grant\<close> succeeds when
    \<^verbatim>\<open>entitlementIds\<close> is an array and user id, reasoning and ids can be written
    to the console; and \<^verbatim>\<open>create_grant\<close> without \<^verbatim>\<open>entitlementIds\<close> throws a
    TypeError.
\<close>

theorem executeTool_missing_argument:
  "toolName \<in> set tool_names \<Longrightarrow>
   missing_required toolName kvs \<Longrightarrow>
     (\<not> mockMode E \<longrightarrow>
        (\<exists>r. fst (executeTool E w toolName (JObj kvs)) = Inr r)
        \<and> (toolName = ''create_grant'' \<and> map_of kvs ''entitlementIds'' = None \<longrightarrow>
             (\<exists>msg. executeTool E w toolName (JObj kvs) = (Inr (Failed msg), w)
                \<and> (printable (map_of kvs ''userId'') \<longrightarrow>
                      msg = message_of (cannot_read ''undefined'' ''length'')))))
     \<and> (mockMode E \<longrightarrow>
        (toolName = ''list_entitlement_bundles'' \<longrightarrow>
           executeTool E w toolName (JObj kvs) = (Inr (Ok_data (Bundles mockBundles)), w))
        \<and> (toolName = ''add_request_message'' \<longrightarrow>
             executeTool E w toolName (JObj kvs)
               = (if printable (map_of kvs ''requestId'') \<and> printable (map_of kvs ''message'')
                  then (Inr (Ok_echo (map_of kvs ''requestId'') (map_of kvs ''message'')), w)
                  else (Inl not_primitive, w)))
        \<and> (toolName = ''create_grant'' \<and> map_of kvs ''entitlementIds'' = Some (JArr es)
             \<and> printable (map_of kvs ''userId'') \<and> printable (map_of kvs ''reasoning'')
             \<and> list_all converts es \<longrightarrow>
             fst (executeTool E w toolName (JObj kvs))
               = Inr (Ok_grants (granted_records E w (map_of kvs ''userId'') es)
                       (map_of kvs ''reasoning'')))
        \<and> (toolName = ''create_grant'' \<and> map_of kvs ''entitlementIds'' = None \<longrightarrow>
             (\<exists>e. executeTool E w toolName (JObj kvs) = (Inl e, w)
                \<and> (printable (map_of kvs ''userId'') \<longrightarrow>
                      e = cannot_read ''undefined'' ''length''))))"
proof (intro conjI impI)
  assume "toolName \<in> set tool_names" "\<not> mockMode E"
  then show "\<exists>r. fst (executeTool E w toolName (JObj kvs)) = Inr r"
    by (simp add: executeTool_live_returns)
next
  assume "\<not> mockMode E" "toolName = ''create_grant'' \<and> map_of kvs ''entitlementIds'' = None"
  then show "\<exists>msg. executeTool E w toolName (JObj kvs) = (Inr (Failed msg), w)
      \<and> (printable (map_of kvs ''userId'') \<longrightarrow>
            msg = message_of (cannot_read ''undefined'' ''length''))"
    by (simp add: executeTool_def createGrant_def grantArguments_no_ids)
next
  assume "mockMode E" "toolName = ''list_entitlement_bundles''"
    and "missing_required toolName kvs"
  then show "executeTool E w toolName (JObj kvs) = (Inr (Ok_data (Bundles mockBundles)), w)"
    by (simp add: executeTool_def listEntitlementBundles_def missing_required_def
        required_of_def tools_def)
next
  assume "mockMode E" "toolName = ''add_request_message''"
  then show "executeTool E w toolName (JObj kvs)
      = (if printable (map_of kvs ''requestId'') \<and> printable (map_of kvs ''message'')
         then (Inr (Ok_echo (map_of kvs ''requestId'') (map_of kvs ''message'')), w)
         else (Inl not_primitive, w))"
    by (simp add: executeTool_def addRequestMessage_def interpolate_printable)
next
  assume m: "mockMode E"
    and c: "toolName = ''create_grant'' \<and> map_of kvs ''entitlementIds'' = Some (JArr es)
      \<and> printable (map_of kvs ''userId'') \<and> printable (map_of kvs ''reasoning'')
      \<and> list_all converts es"
  from m have "\<not> mockMode E \<longrightarrow>
      list_all replied_ok (grantReplies E (sent w) (map_of kvs ''userId'') es)"
    by simp
  with c have "fst (createGrant E w (map_of kvs ''userId'') (Some JNull) (Some (JArr es))
        (map_of kvs ''reasoning''))
      = Inr (Ok_grants (granted_records E w (map_of kvs ''userId'') es) (map_of kvs ''reasoning''))"
    by (intro createGrant_granted_records) simp_all
  with c show "fst (executeTool E w toolName (JObj kvs))
      = Inr (Ok_grants (granted_records E w (map_of kvs ''userId'') es) (map_of kvs ''reasoning''))"
    by (simp add: executeTool_def)
next
  assume "mockMode E" "toolName = ''create_grant'' \<and> map_of kvs ''entitlementIds'' = None"
  then show "\<exists>e. executeTool E w toolName (JObj kvs) = (Inl e, w)
      \<and> (printable (map_of kvs ''userId'') \<longrightarrow> e = cannot_read ''undefined'' ''length'')"
    by (simp add: executeTool_def createGrant_def grantArguments_no_ids)
qed

text \<open>Live mode, \<^verbatim>\<open>create_grant\<close> with a user id and nothing else.\<close>

theorem executeTool_missing_argument_witness:
  "''create_grant'' \<in> set tool_names
   \<and> missing_required ''create_grant'' [(''userId'', JStr ''00uq3zp622HWDY2Jc697'')]
   \<and> \<not> mockMode live_env
   \<and> printable (map_of [(''userId'', JStr ''00uq3zp622HWDY2Jc697'')] ''userId'')
   \<and> executeTool live_env w0 ''create_grant'' (JObj [(''userId'', JStr ''00uq3zp622HWDY2Jc697'')])
       = (Inr (Failed (message_of (cannot_read ''undefined'' ''length''))), w0)"
proof -
  have known: "''create_grant'' \<in> set tool_names"
    by (simp add: tool_names_def tools_def)
  have missing: "missing_required ''create_grant'' [(''userId'', JStr ''00uq3zp622HWDY2Jc697'')]"
    by (simp add: missing_required_def required_of_def tools_def)
  from executeTool_missing_argument [OF known missing, of live_env w0] known missing
  show ?thesis by auto
qed

text \<open>
  Claim C7 as stated fails. With no argument at all, \<^verbatim>\<open>list_entitlement_bundles\<close>
  returns a successful result, in mock mode and in live mode (the backend is asked for
  the bundles of application \<^verbatim>\<open>undefined\<close> and answers); and in mock mode
  \<^verbatim>\<open>create_grant\<close> throws instead of returning a failed result.
\<close>

theorem executeTool_missing_argument_counterexample:
  "missing_required ''list_entitlement_bundles'' []
   \<and> fst (executeTool mock_env w0 ''list_entitlement_bundles'' (JObj []))
       = Inr (Ok_data (Bundles mockBundles))
   \<and> fst (executeTool live_env w0 ''list_entitlement_bundles'' (JObj []))
       = Inr (Ok_data (Bundles []))
   \<and> success (Ok_data (Bundles mockBundles))
   \<and> success (Ok_data (Bundles []))
   \<and> missing_required ''create_grant'' []
   \<and> fst (executeTool mock_env w0 ''create_grant'' (JObj []))
       = Inl (cannot_read ''undefined'' ''length'')"
  by (simp add: missing_required_def required_of_def tools_def executeTool_def
      listEntitlementBundles_def createGrant_def grantArguments_no_ids axios_def
      bundles_of_body_def w0_def)

text \<open>
  An argument that cannot be written to the console: the mock path throws, the live
  path returns a failed result and sends nothing.
\<close>

lemma unprintable_message:
  "executeTool mock_env w0 ''add_request_message''
       (JObj [(''message'', JObj [(''toString'', JNum 1)])])
     = (Inl (TypeError ''Cannot convert object to primitive value''), w0)
   \<and> executeTool live_env w0 ''add_request_message''
       (JObj [(''message'', JObj [(''toString'', JNum 1)])])
     = (Inr (Failed ''Cannot convert object to primitive value''), w0)"
  by (simp add: executeTool_def addRequestMessage_def not_primitive_def)

subsection \<open>The shape of mock and live results\<close>

text \<open>
  The live paths return \<^verbatim>\<open>{success, data}\<close> (with \<^verbatim>\<open>reasoning\<close> for the grants)
  or \<^verbatim>\<open>{success, error}\<close>, and so do the mock paths of the listing and of the
  grants.
\<close>

lemma listEntitlementBundles_keys:
  "fst (listEntitlementBundles E w applicationId) = Inr r \<Longrightarrow>
     keys r \<in> {[''success'', ''data''], [''success'', ''error'']}"
  by (auto simp: listEntitlementBundles_def split: if_splits option.splits prod.splits sum.splits)

lemma createGrant_keys:
  "fst (createGrant E w userId applicationId ids reasoning) = Inr r \<Longrightarrow>
     keys r \<in> {[''success'', ''data'', ''reasoning''], [''success'', ''error'']}"
  by (auto simp: createGrant_def split: if_splits prod.splits sum.splits)

lemma addRequestMessage_live_keys:
  "\<not> mockMode E \<Longrightarrow> fst (addRequestMessage E w requestId message) = Inr r \<Longrightarrow>
     keys r \<in> {[''success'', ''data''], [''success'', ''error'']}"
  by (auto simp: addRequestMessage_def split: option.splits prod.splits sum.splits)

lemma addRequestMessage_mock_keys:
  "mockMode E \<Longrightarrow> fst (addRequestMessage E w requestId message) = Inr r \<Longrightarrow>
     r = Ok_echo requestId message
     \<and> keys r = [''success'', ''requestId'', ''message'']
     \<and> shape r = (True, False, False)"
  by (auto simp: addRequestMessage_def shape_def split: option.splits)

text \<open>
  Claim C3 does not hold of \<^verbatim>\<open>add_request_message\<close>: for the same arguments, the
  mock path returns \<^verbatim>\<open>{ success: true, requestId, message }\<close>, a success without
  \<^verbatim>\<open>data\<close>, and the live path returns \<^verbatim>\<open>{ success: true, data }\<close>.
\<close>

theorem mock_addRequestMessage_shape:
  "fst (executeTool mock_env w0 ''add_request_message'' note_args)
     = Inr (Ok_echo (Some (JStr ''reqmugy3wLZYLyU8696''))
         (Some (JStr ''Granted Storage Object Viewer.'')))
   \<and> fst (executeTool live_env w0 ''add_request_message'' note_args)
       = Inr (Ok_data (Body (JObj [(''id'', JStr ''msg-1'')])))
   \<and> shape (Ok_echo (Some (JStr ''reqmugy3wLZYLyU8696''))
         (Some (JStr ''Granted Storage Object Viewer.'')))
       = (True, False, False)
   \<and> shape (Ok_data (Body (JObj [(''id'', JStr ''msg-1'')]))) = (True, True, False)
   \<and> keys (Ok_echo (Some (JStr ''reqmugy3wLZYLyU8696''))
         (Some (JStr ''Granted Storage Object Viewer.'')))
       = [''success'', ''requestId'', ''message'']
   \<and> keys (Ok_data (Body (JObj [(''id'', JStr ''msg-1'')]))) = [''success'', ''data'']"
  by (simp add: executeTool_def addRequestMessage_def axios_def note_args_def shape_def w0_def)

section \<open>Properties of the agent loop\<close>

declare agentLoop.simps [simp del]

subsection \<open>The system prompt\<close>

lemma systemPrompt_head: "\<exists>t. systemPrompt wd = CHR ''Y'' # t"
  by (simp add: systemPrompt_def)

lemma systemPrompt_neq: "systemPrompt wd \<noteq> ''Process this access request autonomously.''"
  using systemPrompt_head [of wd] by auto

subsection \<open>One turn\<close>

text \<open>
  One round of the \<^verbatim>\<open>for\<close> loop, for a call whose arguments are JSON:
  \<open>executeTool\<close> is called in the current world, and what it returns, or the failed
  result with the message of what it throws, is pushed under the call's identifier.
\<close>

lemma runToolCalls_Cons:
  "tc_arguments c = Inr args \<Longrightarrow>
     runToolCalls E (c # calls) st =
       runToolCalls E calls
         (pushToolResult c
            (case fst (executeTool E (world_of st) (tc_name c) args) of
               Inr result \<Rightarrow> result
             | Inl e \<Rightarrow> Failed (message_of e))
            (snd (executeTool E (world_of st) (tc_name c) args)) st)"
  by (simp split: prod.splits sum.splits)

lemma toolResults_Cons:
  "tc_arguments c = Inr args \<Longrightarrow>
     toolResults E w (c # cs) =
       ((case fst (executeTool E w (tc_name c) args) of
           Inr result \<Rightarrow> result
         | Inl e \<Rightarrow> Failed (message_of e))
          # fst (toolResults E (snd (executeTool E w (tc_name c) args)) cs),
        snd (toolResults E (snd (executeTool E w (tc_name c) args)) cs))"
  by (simp split: prod.splits)

lemma runToolCalls_step:
  "tc_arguments c = Inr args \<Longrightarrow>
     \<exists>res w1. runToolCalls E (c # calls) st = runToolCalls E calls (pushToolResult c res w1 st)"
  using runToolCalls_Cons [of c args E calls st] by blast

lemma length_toolResults:
  "list_all parses calls \<Longrightarrow> length (fst (toolResults E w calls)) = length calls"
proof (induction calls arbitrary: w)
  case Nil
  then show ?case by simp
next
  case (Cons c calls)
  from Cons.prems obtain args where args: "tc_arguments c = Inr args"
    by (cases "tc_arguments c") (auto simp: parses_def)
  from Cons.prems have "list_all parses calls" by simp
  from Cons.IH [OF this] show ?case
    by (simp only: toolResults_Cons [OF args] fst_conv list.size)
qed

lemma runToolCalls_parses:
  "list_all parses calls \<Longrightarrow>
     runToolCalls E calls st =
       (None,
        \<lparr>messages = messages st
           @ map2 (\<lambda>c r. Tool (tc_id c) r) calls (fst (toolResults E (world_of st) calls)),
         world_of = snd (toolResults E (world_of st) calls),
         events = events st
           @ map2 Tool_executed calls (fst (toolResults E (world_of st) calls))\<rparr>)"
proof (induction calls arbitrary: st)
  case Nil
  show ?case by simp
next
  case (Cons c calls)
  from Cons.prems obtain args where args: "tc_arguments c = Inr args"
    by (cases "tc_arguments c") (auto simp: parses_def)
  from Cons.prems have ps: "list_all parses calls" by simp
  show ?case
    by (simp only: runToolCalls_Cons [OF args] toolResults_Cons [OF args] Cons.IH [OF ps])
       (simp add: pushToolResult_def)
qed

lemma runToolCalls_messages_grow:
  "runToolCalls E calls st = (res, st') \<Longrightarrow> set (messages st) \<subseteq> set (messages st')"
proof (induction calls arbitrary: st)
  case Nil
  then show ?case by simp
next
  case (Cons c calls)
  show ?case
  proof (cases "tc_arguments c")
    case (Inl e)
    with Cons.prems show ?thesis by simp
  next
    case (Inr args)
    from runToolCalls_step [OF this, of E calls st] Cons.prems
    obtain r w1 where "runToolCalls E calls (pushToolResult c r w1 st) = (res, st')"
      by auto
    from Cons.IH [OF this] show ?thesis by (auto simp: pushToolResult_def)
  qed
qed

lemma runToolCalls_unknown_step:
  "tc_arguments c = Inr args \<Longrightarrow> tc_name c \<notin> set tool_names \<Longrightarrow>
     runToolCalls E (c # rest) st =
       runToolCalls E rest
         (pushToolResult c (Failed (''Unknown MCP tool: '' @ tc_name c)) (world_of st) st)"
  by (auto simp: executeTool_def tool_names_def tools_def)

lemma runToolCalls_unknown:
  "list_all parses calls \<Longrightarrow> c \<in> set calls \<Longrightarrow> tc_name c \<notin> set tool_names \<Longrightarrow>
   runToolCalls E calls st = (res, st') \<Longrightarrow>
     Tool (tc_id c) (Failed (''Unknown MCP tool: '' @ tc_name c)) \<in> set (messages st')"
proof (induction calls arbitrary: st)
  case Nil
  then show ?case by simp
next
  case (Cons d calls)
  from Cons.prems(1) obtain args where args: "tc_arguments d = Inr args"
    by (cases "tc_arguments d") (auto simp: parses_def)
  show ?case
  proof (cases "c = d")
    case True
    from runToolCalls_unknown_step [OF args, of E calls st] True Cons.prems(3,4)
    have run: "runToolCalls E calls
        (pushToolResult d (Failed (''Unknown MCP tool: '' @ tc_name c)) (world_of st) st)
        = (res, st')"
      by simp
    have "Tool (tc_id c) (Failed (''Unknown MCP tool: '' @ tc_name c))
        \<in> set (messages
            (pushToolResult d (Failed (''Unknown MCP tool: '' @ tc_name c)) (world_of st) st))"
      using True by (simp add: pushToolResult_def)
    with runToolCalls_messages_grow [OF run] show ?thesis by blast
  next
    case False
    with Cons.prems(2) have "c \<in> set calls" by simp
    from runToolCalls_step [OF args, of E calls st] Cons.prems(4)
    obtain r w1 where run: "runToolCalls E calls (pushToolResult d r w1 st) = (res, st')"
      by auto
    from Cons.IH [OF _ \<open>c \<in> set calls\<close> Cons.prems(3) run] Cons.prems(1) show ?thesis by simp
  qed
qed

lemma runToolCalls_throws:
  "runToolCalls E calls st = (Some e, st') \<Longrightarrow> \<exists>d\<in>set calls. tc_arguments d = Inl e"
proof (induction calls arbitrary: st)
  case Nil
  then show ?case by simp
next
  case (Cons c calls)
  show ?case
  proof (cases "tc_arguments c")
    case (Inl x)
    with Cons.prems show ?thesis by simp
  next
    case (Inr args)
    from runToolCalls_step [OF this, of E calls st] Cons.prems
    obtain res w1 where "runToolCalls E calls (pushToolResult c res w1 st) = (Some e, st')"
      by auto
    from Cons.IH [OF this] show ?thesis by simp
  qed
qed

lemma runToolCalls_not_parses:
  "\<not> list_all parses calls \<Longrightarrow> \<exists>e st'. runToolCalls E calls st = (Some e, st')"
proof (induction calls arbitrary: st)
  case Nil
  then show ?case by simp
next
  case (Cons c calls)
  show ?case
  proof (cases "tc_arguments c")
    case (Inl x)
    then show ?thesis by simp
  next
    case (Inr args)
    then have "parses c" by (simp add: parses_def)
    with Cons.prems have "\<not> list_all parses calls" by simp
    from Cons.IH [OF this] runToolCalls_step [OF Inr, of E calls st]
    show ?thesis by metis
  qed
qed


lemma agentLoop_continue:
  "choices r = m # ms \<Longrightarrow> tool_calls m = Some calls \<Longrightarrow>
   runToolCalls E calls (st\<lparr>messages := messages st @ [Assistant m]\<rparr>) = (None, st2) \<Longrightarrow>
     agentLoop E r replies st =
       (case replies of
          [] \<Rightarrow> (Awaiting_model, requestModel st2)
        | Inl e # rest \<Rightarrow> (Thrown e, requestModel st2)
        | Inr r' # rest \<Rightarrow> agentLoop E r' rest (requestModel st2))"
  by (simp add: agentLoop.simps)

lemma agentLoop_exit:
  "choices r = m # ms \<Longrightarrow> tool_calls m = None \<Longrightarrow> agentLoop E r replies st = (Returned r, st)"
  by (simp add: agentLoop.simps)

lemma agentLoop_throw:
  "choices r = m # ms \<Longrightarrow> tool_calls m = Some calls \<Longrightarrow>
   runToolCalls E calls (st\<lparr>messages := messages st @ [Assistant m]\<rparr>) = (Some e, st2) \<Longrightarrow>
     agentLoop E r replies st = (Thrown e, st2)"
  by (simp add: agentLoop.simps)

lemma agentLoop_Returned:
  "agentLoop E r replies st = (Returned r', st') \<Longrightarrow>
     (\<exists>m ms. choices r' = m # ms \<and> tool_calls m = None)
     \<and> (r' = r \<and> st' = st \<or> (\<exists>evs msgs. events st' = evs @ [Model_requested msgs]))"
proof (induction replies arbitrary: r st)
  case Nil
  then show ?case
    by (auto simp: agentLoop.simps split: list.splits option.splits prod.splits)
next
  case (Cons x replies)
  show ?case
  proof (cases "choices r")
    case Nil
    with Cons.prems show ?thesis by (simp add: agentLoop.simps)
  next
    case (Cons m ms)
    note ch = this
    show ?thesis
    proof (cases "tool_calls m")
      case None
      with ch Cons.prems show ?thesis by (auto simp: agentLoop.simps)
    next
      case (Some calls)
      obtain res st2 where run: "runToolCalls E calls (st\<lparr>messages := messages st @ [Assistant m]\<rparr>) = (res, st2)"
        by (cases "runToolCalls E calls (st\<lparr>messages := messages st @ [Assistant m]\<rparr>)")
      show ?thesis
      proof (cases res)
        case (Some e)
        with ch \<open>tool_calls m = Some calls\<close> run Cons.prems show ?thesis
          by (simp add: agentLoop.simps)
      next
        case None
        with run have run': "runToolCalls E calls (st\<lparr>messages := messages st @ [Assistant m]\<rparr>) = (None, st2)"
          by simp
        note unfold = agentLoop_continue [OF ch \<open>tool_calls m = Some calls\<close> run', of "x # replies"]
        show ?thesis
        proof (cases x)
          case (Inl e)
          with unfold Cons.prems show ?thesis by simp
        next
          case (Inr r1)
          with unfold Cons.prems have next_turn: "agentLoop E r1 replies (requestModel st2) = (Returned r', st')"
            by simp
          from Cons.IH [OF this]
          have a: "\<exists>m ms. choices r' = m # ms \<and> tool_calls m = None"
            and b: "r' = r1 \<and> st' = requestModel st2 \<or> (\<exists>evs msgs. events st' = evs @ [Model_requested msgs])"
            by blast+
          from b have "\<exists>evs msgs. events st' = evs @ [Model_requested msgs]"
            by (auto simp: requestModel_def)
          with a show ?thesis by blast
        qed
      qed
    qed
  qed
qed


subsection \<open>What the requests carry\<close>


lemma followup_messages_append:
  "followup_messages msgs \<Longrightarrow> \<not> list_ex is_system added \<Longrightarrow> followup_messages (msgs @ added)"
  by (cases msgs) (auto simp: followup_messages_def split: message.splits)

lemma followup_messages_no_prompt:
  "followup_messages msgs \<Longrightarrow> System (systemPrompt wd) \<notin> set msgs"
proof (cases msgs)
  case Nil
  then show ?thesis by simp
next
  case (Cons a rest)
  assume f: "followup_messages msgs"
  with Cons have a: "a = System ''Process this access request autonomously.''"
    and rest: "\<not> list_ex is_system rest"
    by (auto simp: followup_messages_def split: message.splits)
  from rest have "System (systemPrompt wd) \<notin> set rest"
    by (auto simp: list_ex_iff)
  with a Cons systemPrompt_neq [of wd] show ?thesis by auto
qed


lemma runToolCalls_appends_tool_messages:
  "runToolCalls E calls st = (res, st') \<Longrightarrow>
     (\<exists>added. messages st' = messages st @ added \<and> \<not> list_ex is_system added)
     \<and> (\<forall>msgs. Model_requested msgs \<in> set (events st') \<longrightarrow> Model_requested msgs \<in> set (events st))"
proof (induction calls arbitrary: st)
  case Nil
  then show ?case by simp
next
  case (Cons c calls)
  show ?case
  proof (cases "tc_arguments c")
    case (Inl e)
    with Cons.prems show ?thesis by simp
  next
    case (Inr args)
    from runToolCalls_step [OF this, of E calls st] Cons.prems
    obtain r w1 where "runToolCalls E calls (pushToolResult c r w1 st) = (res, st')"
      by auto
    from Cons.IH [OF this] obtain added where
      added: "messages st' = messages (pushToolResult c r w1 st) @ added" "\<not> list_ex is_system added"
      and ev: "\<forall>msgs. Model_requested msgs \<in> set (events st')
                \<longrightarrow> Model_requested msgs \<in> set (events (pushToolResult c r w1 st))"
      by blast
    from added have "messages st' = messages st @ (Tool (tc_id c) r # added)
        \<and> \<not> list_ex is_system (Tool (tc_id c) r # added)"
      by (simp add: pushToolResult_def)
    moreover from ev have "\<forall>msgs. Model_requested msgs \<in> set (events st')
                \<longrightarrow> Model_requested msgs \<in> set (events st)"
      by (simp add: pushToolResult_def)
    ultimately show ?thesis by blast
  qed
qed


lemma agentLoop_requests:
  "followup_messages (messages st) \<Longrightarrow>
   \<forall>msgs. Model_requested msgs \<in> set (events st) \<longrightarrow> followup_messages msgs \<Longrightarrow>
   agentLoop E r replies st = (out, st') \<Longrightarrow>
     \<forall>msgs. Model_requested msgs \<in> set (events st') \<longrightarrow> followup_messages msgs"
proof (induction replies arbitrary: r st)
  case Nil
  note prems = Nil
  show ?case
  proof (cases "choices r")
    case Nil
    with prems show ?thesis by (simp add: agentLoop.simps)
  next
    case (Cons m ms)
    show ?thesis
    proof (cases "tool_calls m")
      case None
      with Cons prems show ?thesis by (simp add: agentLoop.simps)
    next
      case (Some calls)
      obtain res st2 where run:
        "runToolCalls E calls (st\<lparr>messages := messages st @ [Assistant m]\<rparr>) = (res, st2)"
        by (cases "runToolCalls E calls (st\<lparr>messages := messages st @ [Assistant m]\<rparr>)")
      from runToolCalls_appends_tool_messages [OF run] obtain added where
        added: "messages st2 = (messages st @ [Assistant m]) @ added" "\<not> list_ex is_system added"
        and ev: "\<forall>msgs. Model_requested msgs \<in> set (events st2)
                  \<longrightarrow> Model_requested msgs \<in> set (events st)"
        by auto
      from added prems(1) have f2: "followup_messages (messages st2)"
        using followup_messages_append [of "messages st" "Assistant m # added"] by simp
      from ev prems(2) have e2: "\<forall>msgs. Model_requested msgs \<in> set (events st2)
          \<longrightarrow> followup_messages msgs" by blast
      from f2 e2 have e3: "\<forall>msgs. Model_requested msgs \<in> set (events (requestModel st2))
          \<longrightarrow> followup_messages msgs"
        by (auto simp: requestModel_def)
      show ?thesis
      proof (cases res)
        case (Some e)
        with Cons \<open>tool_calls m = Some calls\<close> run prems(3) e2 show ?thesis
          by (simp add: agentLoop.simps)
      next
        case None
        with run Cons \<open>tool_calls m = Some calls\<close> prems(3) e3 show ?thesis
          by (simp add: agentLoop.simps)
      qed
    qed
  qed
next
  case (Cons x replies)
  note prems = Cons.prems and IH = Cons.IH
  show ?case
  proof (cases "choices r")
    case Nil
    with prems show ?thesis by (simp add: agentLoop.simps)
  next
    case (Cons m ms)
    show ?thesis
    proof (cases "tool_calls m")
      case None
      with Cons prems show ?thesis by (simp add: agentLoop.simps)
    next
      case (Some calls)
      obtain res st2 where run:
        "runToolCalls E calls (st\<lparr>messages := messages st @ [Assistant m]\<rparr>) = (res, st2)"
        by (cases "runToolCalls E calls (st\<lparr>messages := messages st @ [Assistant m]\<rparr>)")
      from runToolCalls_appends_tool_messages [OF run] obtain added where
        added: "messages st2 = (messages st @ [Assistant m]) @ added" "\<not> list_ex is_system added"
        and ev: "\<forall>msgs. Model_requested msgs \<in> set (events st2)
                  \<longrightarrow> Model_requested msgs \<in> set (events st)"
        by auto
      from added prems(1) have f2: "followup_messages (messages st2)"
        using followup_messages_append [of "messages st" "Assistant m # added"] by simp
      from ev prems(2) have e2: "\<forall>msgs. Model_requested msgs \<in> set (events st2)
          \<longrightarrow> followup_messages msgs" by blast
      from f2 have f3: "followup_messages (messages (requestModel st2))"
        by (simp add: requestModel_def)
      from f2 e2 have e3: "\<forall>msgs. Model_requested msgs \<in> set (events (requestModel st2))
          \<longrightarrow> followup_messages msgs"
        by (auto simp: requestModel_def)
      show ?thesis
      proof (cases res)
        case (Some e)
        with Cons \<open>tool_calls m = Some calls\<close> run prems(3) e2 show ?thesis
          by (simp add: agentLoop.simps)
      next
        case None
        show ?thesis
        proof (cases x)
          case (Inl e)
          with None run Cons \<open>tool_calls m = Some calls\<close> prems(3) e3 show ?thesis
            by (simp add: agentLoop.simps)
        next
          case (Inr r1)
          with None run Cons \<open>tool_calls m = Some calls\<close> prems(3)
          have "agentLoop E r1 replies (requestModel st2) = (out, st')"
            by (simp add: agentLoop.simps)
          from IH [OF f3 e3 this] show ?thesis .
        qed
      qed
    qed
  qed
qed

lemma handleToolCalls_requests:
  "Model_requested msgs \<in> set (events (snd (handleToolCalls E response replies w))) \<Longrightarrow>
     followup_messages msgs"
proof -
  assume a: "Model_requested msgs \<in> set (events (snd (handleToolCalls E response replies w)))"
  let ?st = "\<lparr>messages = initialMessages, world_of = w, events = []\<rparr>"
  obtain out st' where run: "agentLoop E response replies ?st = (out, st')"
    by (cases "agentLoop E response replies ?st")
  have "followup_messages (messages ?st)"
    by (simp add: initialMessages_def followup_messages_def)
  moreover have "\<forall>msgs. Model_requested msgs \<in> set (events ?st) \<longrightarrow> followup_messages msgs"
    by simp
  ultimately have "\<forall>msgs. Model_requested msgs \<in> set (events st') \<longrightarrow> followup_messages msgs"
    using run by (rule agentLoop_requests)
  with a run show ?thesis by (simp add: handleToolCalls_def)
qed

text \<open>
  Claim C4 does not hold of the code. The first request of \<open>processAccessRequest\<close>
  carries the system prompt built from the request. Every later request is sent by
  \<open>handleToolCalls\<close> with its own \<^verbatim>\<open>messages\<close> array: it starts with the fixed
  system message \<^verbatim>\<open>Process this access request autonomously.\<close>, holds no other
  system message, and so never holds the system prompt built from the request.
\<close>

theorem followup_requests_lack_system_prompt:
  "\<exists>evs. events (snd (processAccessRequest E webhookData replies w))
            = Model_requested [System (systemPrompt webhookData)] # evs
      \<and> (\<forall>msgs. Model_requested msgs \<in> set evs \<longrightarrow>
            followup_messages msgs
            \<and> hd msgs = System ''Process this access request autonomously.''
            \<and> System (systemPrompt webhookData) \<notin> set msgs)"
proof (cases replies)
  case Nil
  then show ?thesis by (simp add: processAccessRequest_def)
next
  case (Cons x rest)
  show ?thesis
  proof (cases x)
    case (Inl e)
    with Cons show ?thesis by (simp add: processAccessRequest_def)
  next
    case (Inr response)
    let ?evs = "events (snd (handleToolCalls E response rest w))"
    have ev: "events (snd (processAccessRequest E webhookData replies w))
        = Model_requested [System (systemPrompt webhookData)] # ?evs"
      using Cons Inr by (simp add: processAccessRequest_def split: prod.splits)
    have "\<forall>msgs. Model_requested msgs \<in> set ?evs \<longrightarrow>
            followup_messages msgs
            \<and> hd msgs = System ''Process this access request autonomously.''
            \<and> System (systemPrompt webhookData) \<notin> set msgs"
    proof (intro allI impI)
      fix msgs assume "Model_requested msgs \<in> set ?evs"
      then have f: "followup_messages msgs" by (rule handleToolCalls_requests)
      then have "hd msgs = System ''Process this access request autonomously.''"
        by (cases msgs) (auto simp: followup_messages_def split: message.splits)
      with f followup_messages_no_prompt [OF f, of webhookData]
      show "followup_messages msgs
            \<and> hd msgs = System ''Process this access request autonomously.''
            \<and> System (systemPrompt webhookData) \<notin> set msgs" by simp
    qed
    with ev show ?thesis by blast
  qed
qed

text \<open>The example run.\<close>

lemma example_calls:
  "executeTool mock_env w0 ''list_entitlement_bundles''
       (JObj [(''applicationId'', JStr ''0oavij8jl7fx84fA5697'')])
     = (Inr (Ok_data (Bundles mockBundles)), w0)"
  "executeTool mock_env w0 ''revoke_grant'' (JObj [])
     = (Inl (Error ''Unknown MCP tool: revoke_grant''), w0)"
  by (simp_all add: executeTool_def listEntitlementBundles_def)

lemma example_call_fields:
  "tc_id list_call = ''call_1''"
  "tc_name list_call = ''list_entitlement_bundles''"
  "tc_arguments list_call = Inr (JObj [(''applicationId'', JStr ''0oavij8jl7fx84fA5697'')])"
  "tc_id revoke_call = ''call_2''"
  "tc_name revoke_call = ''revoke_grant''"
  "tc_arguments revoke_call = Inr (JObj [])"
  "tc_id bad_call = ''call_3''"
  "tc_name bad_call = ''list_entitlement_bundles''"
  "tc_arguments bad_call = Inl (SyntaxError ''Unexpected end of JSON input'')"
  by (simp_all add: list_call_def revoke_call_def bad_call_def)

lemma handleToolCalls_demo:
  "handleToolCalls mock_env (Response [first_turn]) [Inr (Response [final_turn])] w0
     = (Returned (Response [final_turn]),
        \<lparr>messages =
           [System ''Process this access request autonomously.'',
            Assistant first_turn,
            Tool ''call_1'' (Ok_data (Bundles mockBundles)),
            Tool ''call_2'' (Failed ''Unknown MCP tool: revoke_grant'')],
         world_of = w0,
         events =
           [Tool_executed list_call (Ok_data (Bundles mockBundles)),
            Tool_executed revoke_call (Failed ''Unknown MCP tool: revoke_grant''),
            Model_requested
              [System ''Process this access request autonomously.'',
               Assistant first_turn,
               Tool ''call_1'' (Ok_data (Bundles mockBundles)),
               Tool ''call_2'' (Failed ''Unknown MCP tool: revoke_grant'')]]\<rparr>)"
proof -
  have calls: "tool_calls first_turn = Some [list_call, revoke_call]"
    "tool_calls final_turn = None"
    by (simp_all add: first_turn_def final_turn_def)
  show ?thesis
    by (simp add: handleToolCalls_def agentLoop.simps initialMessages_def calls
        example_call_fields example_calls pushToolResult_def requestModel_def)
qed

theorem followup_requests_lack_system_prompt_witness:
  "events (snd (processAccessRequest mock_env demo_request
       [Inr (Response [first_turn]), Inr (Response [final_turn])] w0))
     = [Model_requested [System (systemPrompt demo_request)],
        Tool_executed list_call (Ok_data (Bundles mockBundles)),
        Tool_executed revoke_call (Failed ''Unknown MCP tool: revoke_grant''),
        Model_requested
          [System ''Process this access request autonomously.'',
           Assistant first_turn,
           Tool ''call_1'' (Ok_data (Bundles mockBundles)),
           Tool ''call_2'' (Failed ''Unknown MCP tool: revoke_grant'')]]
   \<and> System (systemPrompt demo_request)
       \<notin> set [System ''Process this access request autonomously.'',
                Assistant first_turn,
                Tool ''call_1'' (Ok_data (Bundles mockBundles)),
                Tool ''call_2'' (Failed ''Unknown MCP tool: revoke_grant'')]"
proof -
  let ?second = "[System ''Process this access request autonomously.'',
           Assistant first_turn,
           Tool ''call_1'' (Ok_data (Bundles mockBundles)),
           Tool ''call_2'' (Failed ''Unknown MCP tool: revoke_grant'')]"
  have run: "events (snd (processAccessRequest mock_env demo_request
       [Inr (Response [first_turn]), Inr (Response [final_turn])] w0))
     = [Model_requested [System (systemPrompt demo_request)],
        Tool_executed list_call (Ok_data (Bundles mockBundles)),
        Tool_executed revoke_call (Failed ''Unknown MCP tool: revoke_grant''),
        Model_requested ?second]"
    by (simp add: processAccessRequest_def handleToolCalls_demo)
  from followup_requests_lack_system_prompt [of mock_env demo_request
      "[Inr (Response [first_turn]), Inr (Response [final_turn])]" w0] run
  have "System (systemPrompt demo_request) \<notin> set ?second"
    by auto
  with run show ?thesis by simp
qed

subsection \<open>All the calls of a turn, then the model\<close>

text \<open>
  A turn whose argument texts are all JSON. The loop calls \<open>executeTool\<close> for each
  call, one after the other in their order, each in the world the calls before it have
  left; it appends the assistant message and then one tool message per call, in that
  order and under the call's identifier, and then sends the next request, which
  carries all of them.
\<close>

lemma agentLoop_turn:
  assumes "choices r = m # ms" and "tool_calls m = Some calls" and "list_all parses calls"
  shows "let results = fst (toolResults E (world_of st) calls);
             msgs = messages st @ Assistant m # map2 (\<lambda>c res. Tool (tc_id c) res) calls results;
             st' = \<lparr>messages = msgs,
                    world_of = snd (toolResults E (world_of st) calls),
                    events = events st @ map2 Tool_executed calls results
                      @ [Model_requested msgs]\<rparr>
         in length results = length calls
            \<and> agentLoop E r replies st =
                (case replies of
                   [] \<Rightarrow> (Awaiting_model, st')
                 | Inl e # rest \<Rightarrow> (Thrown e, st')
                 | Inr r' # rest \<Rightarrow> agentLoop E r' rest st')"
proof -
  note run = runToolCalls_parses [OF assms(3), of E "st\<lparr>messages := messages st @ [Assistant m]\<rparr>"]
  from agentLoop_continue [OF assms(1,2) run, of replies]
    length_toolResults [OF assms(3), of E "world_of st"]
  show ?thesis
    by (simp add: requestModel_def Let_def split: list.splits sum.splits)
qed

text \<open>
  No request is sent to the model from within the \<^verbatim>\<open>for\<close> loop of a turn: when
  an error leaves that loop, the requests sent are those sent before the turn.
\<close>

lemma agentLoop_turn_thrown:
  assumes "choices r = m # ms" and "tool_calls m = Some calls" and "\<not> list_all parses calls"
  shows "\<exists>e st'. agentLoop E r replies st = (Thrown e, st')
           \<and> (\<exists>d\<in>set calls. tc_arguments d = Inl e)
           \<and> (\<forall>msgs. Model_requested msgs \<in> set (events st')
                 \<longrightarrow> Model_requested msgs \<in> set (events st))"
proof -
  from runToolCalls_not_parses [OF assms(3), of E "st\<lparr>messages := messages st @ [Assistant m]\<rparr>"]
  obtain e st' where run:
    "runToolCalls E calls (st\<lparr>messages := messages st @ [Assistant m]\<rparr>) = (Some e, st')"
    by blast
  from runToolCalls_appends_tool_messages [OF run]
  have "\<forall>msgs. Model_requested msgs \<in> set (events st')
      \<longrightarrow> Model_requested msgs \<in> set (events st)"
    by simp
  with agentLoop_throw [OF assms(1,2) run, of replies] runToolCalls_throws [OF run]
  show ?thesis by blast
qed

text \<open>
  Claim C9 does not hold of the code. \<^verbatim>\<open>JSON.parse(toolCall.function.arguments)\<close>
  stands before the \<^verbatim>\<open>try\<close> of the \<^verbatim>\<open>for\<close> loop. For a turn of two calls whose
  first arguments text breaks off, its SyntaxError leaves \<open>handleToolCalls\<close>: neither
  call is executed, no tool message is appended, and the model is not asked again,
  though the second call is well formed and runs when it is asked for alone.
\<close>

theorem broken_arguments_abort_turn:
  "tool_calls broken_turn = Some [bad_call, list_call]
   \<and> handleToolCalls mock_env (Response [broken_turn]) [Inr (Response [final_turn])] w0
       = (Thrown (SyntaxError ''Unexpected end of JSON input''),
          \<lparr>messages = [System ''Process this access request autonomously.'', Assistant broken_turn],
           world_of = w0,
           events = []\<rparr>)
   \<and> events (snd (handleToolCalls mock_env
         (Response [\<lparr>content = None, tool_calls = Some [list_call]\<rparr>])
         [Inr (Response [final_turn])] w0))
       = [Tool_executed list_call (Ok_data (Bundles mockBundles)),
          Model_requested
            [System ''Process this access request autonomously.'',
             Assistant \<lparr>content = None, tool_calls = Some [list_call]\<rparr>,
             Tool ''call_1'' (Ok_data (Bundles mockBundles))]]"
proof -
  have calls: "tool_calls broken_turn = Some [bad_call, list_call]"
    "tool_calls final_turn = None"
    by (simp_all add: broken_turn_def final_turn_def)
  show ?thesis
    by (simp add: handleToolCalls_def agentLoop.simps initialMessages_def calls
        example_call_fields example_calls pushToolResult_def requestModel_def)
qed

subsection \<open>A call of an unknown tool\<close>

text \<open>
  Let \<open>c\<close> be a call, in a model turn, of a tool that is not registered.
  \<^item> Once the arguments of \<open>c\<close> are parsed, the executor's error is caught and pushed
    as the failed result \<^verbatim>\<open>{ success: false, error: "Unknown MCP tool: <name>" }\<close>
    under the identifier of \<open>c\<close>, the world is as it was before \<open>c\<close>, and the calls
    after \<open>c\<close> are processed.
  \<^item> An error that leaves the \<^verbatim>\<open>for\<close> loop of the turn is the error of
    \<^verbatim>\<open>JSON.parse\<close> on some call's arguments, never the executor's.
  \<^item> When the arguments of all the turn's calls are JSON, the loop sends the next
    request, and the messages of that request hold the failed result of \<open>c\<close>.
\<close>

lemma unknown_tool_reported:
  assumes "choices r = m # ms" and "tool_calls m = Some calls"
    and "c \<in> set calls" and "tc_name c \<notin> set tool_names"
  shows "\<forall>args later st0. tc_arguments c = Inr args \<longrightarrow>
           runToolCalls E (c # later) st0 =
             runToolCalls E later
               (pushToolResult c (Failed (''Unknown MCP tool: '' @ tc_name c)) (world_of st0) st0)"
    and "\<forall>e st2. runToolCalls E calls (st\<lparr>messages := messages st @ [Assistant m]\<rparr>) = (Some e, st2)
           \<longrightarrow> (\<exists>d\<in>set calls. tc_arguments d = Inl e)"
    and "list_all parses calls \<longrightarrow>
        (\<exists>st'. agentLoop E r replies st =
                 (case replies of
                    [] \<Rightarrow> (Awaiting_model, st')
                  | Inl e # rest \<Rightarrow> (Thrown e, st')
                  | Inr r' # rest \<Rightarrow> agentLoop E r' rest st')
            \<and> Tool (tc_id c) (Failed (''Unknown MCP tool: '' @ tc_name c)) \<in> set (messages st')
            \<and> (\<exists>evs. events st' = evs @ [Model_requested (messages st')]))"
proof -
  show "\<forall>args later st0. tc_arguments c = Inr args \<longrightarrow>
           runToolCalls E (c # later) st0 =
             runToolCalls E later
               (pushToolResult c (Failed (''Unknown MCP tool: '' @ tc_name c)) (world_of st0) st0)"
    using runToolCalls_unknown_step [OF _ assms(4)] by blast
  show "\<forall>e st2. runToolCalls E calls (st\<lparr>messages := messages st @ [Assistant m]\<rparr>) = (Some e, st2)
           \<longrightarrow> (\<exists>d\<in>set calls. tc_arguments d = Inl e)"
    using runToolCalls_throws by blast
  show "list_all parses calls \<longrightarrow>
        (\<exists>st'. agentLoop E r replies st =
                 (case replies of
                    [] \<Rightarrow> (Awaiting_model, st')
                  | Inl e # rest \<Rightarrow> (Thrown e, st')
                  | Inr r' # rest \<Rightarrow> agentLoop E r' rest st')
            \<and> Tool (tc_id c) (Failed (''Unknown MCP tool: '' @ tc_name c)) \<in> set (messages st')
            \<and> (\<exists>evs. events st' = evs @ [Model_requested (messages st')]))"
  proof
    assume ps: "list_all parses calls"
    from runToolCalls_parses [OF ps, of E "st\<lparr>messages := messages st @ [Assistant m]\<rparr>"]
    obtain st2 where run:
      "runToolCalls E calls (st\<lparr>messages := messages st @ [Assistant m]\<rparr>) = (None, st2)"
      by simp
    from runToolCalls_unknown [OF ps assms(3,4) run]
    have "Tool (tc_id c) (Failed (''Unknown MCP tool: '' @ tc_name c))
        \<in> set (messages (requestModel st2))"
      by (simp add: requestModel_def)
    moreover have "\<exists>evs. events (requestModel st2)
        = evs @ [Model_requested (messages (requestModel st2))]"
      by (simp add: requestModel_def)
    ultimately show "\<exists>st'. agentLoop E r replies st =
                 (case replies of
                    [] \<Rightarrow> (Awaiting_model, st')
                  | Inl e # rest \<Rightarrow> (Thrown e, st')
                  | Inr r' # rest \<Rightarrow> agentLoop E r' rest st')
            \<and> Tool (tc_id c) (Failed (''Unknown MCP tool: '' @ tc_name c)) \<in> set (messages st')
            \<and> (\<exists>evs. events st' = evs @ [Model_requested (messages st')])"
      using agentLoop_continue [OF assms(1,2) run, of replies]
      by (intro exI [of _ "requestModel st2"]) simp
  qed
qed


subsection \<open>Leaving the loop\<close>

text \<open>
  Whenever \<open>handleToolCalls\<close> returns, the response it returns has no
  \<^verbatim>\<open>tool_calls\<close>, and no tool was executed after the request that the response
  answers: the run did nothing, or its last event is a request to the model. A first
  response without \<^verbatim>\<open>tool_calls\<close> is returned at once.
\<close>

lemma handleToolCalls_returns:
  "handleToolCalls E r replies w = (Returned r', st') \<Longrightarrow>
     (\<exists>m ms. choices r' = m # ms \<and> tool_calls m = None)
     \<and> (r' = r \<and> events st' = [] \<or> (\<exists>evs msgs. events st' = evs @ [Model_requested msgs]))"
proof -
  assume "handleToolCalls E r replies w = (Returned r', st')"
  then have run: "agentLoop E r replies
      \<lparr>messages = initialMessages, world_of = w, events = []\<rparr> = (Returned r', st')"
    by (simp add: handleToolCalls_def)
  from agentLoop_Returned [OF run] show ?thesis by auto
qed

lemma handleToolCalls_returns_at_once:
  "choices r = m # ms \<Longrightarrow> tool_calls m = None \<Longrightarrow>
     handleToolCalls E r replies w
       = (Returned r, \<lparr>messages = initialMessages, world_of = w, events = []\<rparr>)"
  by (simp add: handleToolCalls_def agentLoop_exit)

text \<open>
  Claim C6 does not hold of the code. The loop condition tests
  \<^verbatim>\<open>message.tool_calls\<close> for truth, and an empty array is true. A turn whose
  \<^verbatim>\<open>tool_calls\<close> is the empty array requests no tool call, yet the loop does not
  end there: it appends the message, executes nothing and asks the model again; it
  returns the next response, not this one, and waits when there is no next response.
\<close>

theorem empty_tool_calls_turn_continues:
  "requested_calls empty_turn = []
   \<and> handleToolCalls mock_env (Response [empty_turn]) [Inr (Response [final_turn])] w0
       = (Returned (Response [final_turn]),
          \<lparr>messages = [System ''Process this access request autonomously.'', Assistant empty_turn],
           world_of = w0,
           events = [Model_requested
             [System ''Process this access request autonomously.'', Assistant empty_turn]]\<rparr>)
   \<and> Response [final_turn] \<noteq> Response [empty_turn]
   \<and> fst (handleToolCalls mock_env (Response [empty_turn]) [] w0) = Awaiting_model"
  by (simp add: requested_calls_def empty_turn_def final_turn_def handleToolCalls_def
      agentLoop.simps initialMessages_def requestModel_def)

end
